theory Spec2Isabelle
  imports Complex_Main
begin

section \<open>Python values and string primitives used by compare\_rouge\_l.py\<close>

text \<open>
  A Python \<open>str\<close> is modelled as a \<open>string\<close>; each \<open>char\<close> stands for one code point
  below 256. Python integers are \<open>int\<close>. A Python \<open>float\<close> is modelled as the real number
  it denotes: the rounding of binary64 and values beyond its range are not modelled.
  Every exception the modelled code can raise is a value of \<open>py_error\<close>; a function
  that can raise returns \<open>py_error + 'a\<close>, with \<open>Inl\<close> for the exception.
\<close>

datatype py_error = IndexError | ValueError | TypeError | ZeroDivisionError | StatisticsError

text \<open>\<open>str.isspace\<close> on one code point below 256, as \<open>strip()\<close> and \<open>split()\<close> use it.\<close>

definition isspace :: "char \<Rightarrow> bool" where
  "isspace c = (c \<in> set [CHR 0x09, CHR 0x0A, CHR 0x0B, CHR 0x0C, CHR 0x0D,
                          CHR 0x1C, CHR 0x1D, CHR 0x1E, CHR 0x1F, CHR 0x20,
                          CHR 0x85, CHR 0xA0])"

text \<open>The regular expression class \<open>\d\<close> on code points below 256: the ASCII digits.\<close>

definition isdigit :: "char \<Rightarrow> bool" where
  "isdigit c = (c \<in> set ''0123456789'')"

definition digit_val :: "char \<Rightarrow> nat" where
  "digit_val c = of_char c - 48"

definition nat_of_digits :: "string \<Rightarrow> nat" where
  "nat_of_digits ds = foldl (\<lambda>a c. 10 * a + digit_val c) 0 ds"

text \<open>\<open>s.startswith(p)\<close> and \<open>sub in s\<close>.\<close>

definition startswith :: "string \<Rightarrow> string \<Rightarrow> bool" where
  "startswith s p = (take (length p) s = p)"

fun str_in :: "string \<Rightarrow> string \<Rightarrow> bool" where
  "str_in sub [] = (sub = [])"
| "str_in sub (c # cs) = (startswith (c # cs) sub \<or> str_in sub cs)"

text \<open>\<open>s.strip()\<close>, and \<open>s.rstrip(chars)\<close>.\<close>

definition str_strip :: "string \<Rightarrow> string" where
  "str_strip s = rev (dropWhile isspace (rev (dropWhile isspace s)))"

definition str_rstrip :: "string \<Rightarrow> string \<Rightarrow> string" where
  "str_rstrip s chars = rev (dropWhile (\<lambda>c. c \<in> set chars) (rev s))"

text \<open>\<open>s.split()\<close>: the maximal runs of non-whitespace, in order.\<close>

fun split_ws_acc :: "string \<Rightarrow> string \<Rightarrow> string list" where
  "split_ws_acc cur [] = (if cur = [] then [] else [cur])"
| "split_ws_acc cur (c # cs) =
     (if isspace c then (if cur = [] then split_ws_acc [] cs else cur # split_ws_acc [] cs)
      else split_ws_acc (cur @ [c]) cs)"

definition str_split :: "string \<Rightarrow> string list" where
  "str_split s = split_ws_acc [] s"

text \<open>\<open>s.split('\n')\<close>: always at least one piece.\<close>

fun split_nl_acc :: "string \<Rightarrow> string \<Rightarrow> string list" where
  "split_nl_acc cur [] = [cur]"
| "split_nl_acc cur (c # cs) =
     (if c = CHR 0x0A then cur # split_nl_acc [] cs else split_nl_acc (cur @ [c]) cs)"

definition split_lines :: "string \<Rightarrow> string list" where
  "split_lines s = split_nl_acc [] s"

text \<open>
  \<open>s.split(sep, 1)[1]\<close> for a non-empty literal \<open>sep\<close>: what follows the first
  occurrence of \<open>sep\<close>; \<open>None\<close> stands for the IndexError when \<open>sep\<close> does not occur.
\<close>

fun after_first :: "string \<Rightarrow> string \<Rightarrow> string option" where
  "after_first sep [] = None"
| "after_first sep (c # cs) =
     (if startswith (c # cs) sep then Some (drop (length sep) (c # cs))
      else after_first sep cs)"

text \<open>
  \<open>int(s)\<close> in base 10: surrounding whitespace is stripped, then an optional sign and
  digits, where single underscores may stand between digits. Anything else is a
  ValueError. (The interpreter's optional limit on the number of digits is not
  modelled.)
\<close>

fun valid_int_body :: "string \<Rightarrow> bool" where
  "valid_int_body [] = False"
| "valid_int_body [c] = isdigit c"
| "valid_int_body (c # d # cs) =
     (isdigit c \<and> (if d = CHR ''_'' then valid_int_body cs else valid_int_body (d # cs)))"

definition unsigned_int :: "string \<Rightarrow> py_error + int" where
  "unsigned_int body =
     (if valid_int_body body
      then Inr (int (nat_of_digits (filter (\<lambda>c. c \<noteq> CHR ''_'') body)))
      else Inl ValueError)"

definition py_int :: "string \<Rightarrow> py_error + int" where
  "py_int s =
     (case str_strip s of
        [] \<Rightarrow> Inl ValueError
      | c # r \<Rightarrow>
          if c = CHR ''-'' then map_sum id uminus (unsigned_int r)
          else if c = CHR ''+'' then unsigned_int r
          else unsigned_int (c # r))"

text \<open>
  \<open>float(s)\<close> for a string of the form digits, dot, digits (the only strings the
  extractor passes to it): the decimal number written.
\<close>

definition py_float :: "string \<Rightarrow> real" where
  "py_float s =
     (let ip = takeWhile (\<lambda>c. c \<noteq> CHR ''.'') s;
          fp = drop 1 (dropWhile (\<lambda>c. c \<noteq> CHR ''.'') s)
      in real (nat_of_digits ip) + real (nat_of_digits fp) / 10 ^ length fp)"

subsection \<open>The two regular expressions\<close>

text \<open>
  \<open>re.search(r'Level (\d+): (.+)', line)\<close>: the leftmost position where the literal
  \<open>Level \<close>, a non-empty run of digits, the literal \<open>: \<close> and at least one character
  other than a newline follow each other. \<open>\d+\<close> is greedy and is followed by a
  non-digit, so only the maximal run of digits can match; \<open>.+\<close> is greedy and runs to
  the end of the line. The result is (group 1, group 2).
\<close>

definition level_match_at :: "string \<Rightarrow> (string \<times> string) option" where
  "level_match_at s =
     (if startswith s ''Level '' then
        (let r = drop 6 s; ds = takeWhile isdigit r; r' = dropWhile isdigit r in
         if ds \<noteq> [] \<and> startswith r' '': '' then
           (let name = takeWhile (\<lambda>c. c \<noteq> CHR 0x0A) (drop 2 r') in
            if name \<noteq> [] then Some (ds, name) else None)
         else None)
      else None)"

fun level_search :: "string \<Rightarrow> (string \<times> string) option" where
  "level_search [] = None"
| "level_search (c # cs) =
     (case level_match_at (c # cs) of Some m \<Rightarrow> Some m | None \<Rightarrow> level_search cs)"

text \<open>
  \<open>re.findall(r'\d+\.\d+', line)\<close>: scanning from the left, a match at a position is
  the maximal run of digits there, a dot, and the maximal run of digits after it (both
  non-empty); the scan resumes after a match, and one character further where there is
  none.
\<close>

definition number_match_at :: "string \<Rightarrow> (string \<times> string) option" where
  "number_match_at s =
     (let ip = takeWhile isdigit s in
      if ip = [] then None
      else (case dropWhile isdigit s of
              [] \<Rightarrow> None
            | c # r \<Rightarrow>
                if c = CHR ''.'' then
                  (let fp = takeWhile isdigit r in
                   if fp = [] then None else Some (ip @ ''.'' @ fp, dropWhile isdigit r))
                else None))"

lemma number_match_at_shorter:
  "number_match_at s = Some (m, rest) \<Longrightarrow> length rest < length s"
proof -
  assume a: "number_match_at s = Some (m, rest)"
  have le: "\<And>xs. length (dropWhile isdigit xs) \<le> length xs"
    by (simp add: length_dropWhile_le)
  from a obtain c r where d: "dropWhile isdigit s = c # r" and rest: "rest = dropWhile isdigit r"
    by (auto simp: number_match_at_def Let_def split: if_splits list.splits)
  have "length rest \<le> length r" using rest le by simp
  also have "length r < length (dropWhile isdigit s)" using d by simp
  also have "\<dots> \<le> length s" by (rule le)
  finally show ?thesis .
qed

function findall :: "string \<Rightarrow> string list" where
  "findall [] = []"
| "findall (c # cs) =
     (case number_match_at (c # cs) of
        Some (m, rest) \<Rightarrow> m # findall rest
      | None \<Rightarrow> findall cs)"
  by pat_completeness auto
termination
  by (relation "measure length") (auto dest: number_match_at_shorter)

section \<open>The result extractor\<close>

text \<open>One entry of the list \<open>extract_results\<close> returns: the dictionary built at lines 156-165.\<close>

record scenario_result =
  example_num :: "int option"
  level :: "int option"
  level_name :: "string option"
  candidate :: "string option"
  reference :: "string option"
  f_measure :: real
  precision :: real
  recall :: real

text \<open>The local variables of \<open>extract_results\<close> (lines 126-133).\<close>

record extract_state =
  results :: "scenario_result list"
  current_example :: "int option"
  current_level :: "int option"
  current_level_name :: "string option"
  current_candidate :: "string option"
  current_reference :: "string option"

definition initial_state :: extract_state where
  "initial_state =
     \<lparr>results = [], current_example = None, current_level = None,
      current_level_name = None, current_candidate = None, current_reference = None\<rparr>"

text \<open>\<open>int(line.split()[1].rstrip(':'))\<close> (line 144).\<close>

definition example_ordinal :: "string \<Rightarrow> py_error + int" where
  "example_ordinal line =
     (case str_split line of
        _ # tok # _ \<Rightarrow> py_int (str_rstrip tok '':'')
      | _ \<Rightarrow> Inl IndexError)"

text \<open>The dictionary appended at lines 156-165, from the state and the matched numbers.\<close>

definition make_result :: "extract_state \<Rightarrow> string list \<Rightarrow> scenario_result" where
  "make_result st numbers =
     \<lparr>example_num = current_example st, level = current_level st,
      level_name = current_level_name st, candidate = current_candidate st,
      reference = current_reference st,
      f_measure = py_float (numbers ! 0), precision = py_float (numbers ! 1),
      recall = py_float (numbers ! 2)\<rparr>"

text \<open>The conditions of the \<open>if\<close>/\<open>elif\<close> chain of the loop body, in the source's order.\<close>

definition is_level_line :: "string \<Rightarrow> bool" where
  "is_level_line line = (str_in ''Level'' line \<and> str_in '':'' line)"

definition is_example_line :: "string \<Rightarrow> bool" where
  "is_example_line line = startswith line ''Example''"

definition is_candidate_line :: "string \<Rightarrow> bool" where
  "is_candidate_line line = startswith (str_strip line) ''Candidate:''"

definition is_reference_line :: "string \<Rightarrow> bool" where
  "is_reference_line line = startswith (str_strip line) ''Reference:''"

definition has_results_label :: "string \<Rightarrow> bool" where
  "has_results_label line = (str_in ''Result:'' line \<or> str_in ''F-Measure:'' line)"

text \<open>One iteration of the loop at lines 135-168.\<close>

definition step :: "extract_state \<Rightarrow> string \<Rightarrow> py_error + extract_state" where
  "step st line =
     (if is_level_line line then
        (case level_search line of
           Some (num, name) \<Rightarrow>
             Inr (st\<lparr>current_level := Some (int (nat_of_digits num)),
                     current_level_name := Some (str_strip name)\<rparr>)
         | None \<Rightarrow> Inr st)
      else if is_example_line line then
        (case example_ordinal line of
           Inl e \<Rightarrow> Inl e
         | Inr n \<Rightarrow> Inr (st\<lparr>current_example := Some n\<rparr>))
      else if is_candidate_line line then
        (case after_first ''Candidate:'' line of
           None \<Rightarrow> Inl IndexError
         | Some rest \<Rightarrow> Inr (st\<lparr>current_candidate := Some (str_strip rest)\<rparr>))
      else if is_reference_line line then
        (case after_first ''Reference:'' line of
           None \<Rightarrow> Inl IndexError
         | Some rest \<Rightarrow> Inr (st\<lparr>current_reference := Some (str_strip rest)\<rparr>))
      else if has_results_label line then
        (let numbers = findall line in
         if length numbers \<ge> 3 then
           Inr (st\<lparr>results := results st @ [make_result st numbers],
                   current_candidate := None, current_reference := None\<rparr>)
         else Inr st)
      else Inr st)"

text \<open>The loop: the first exception ends it.\<close>

fun run_lines :: "extract_state \<Rightarrow> string list \<Rightarrow> py_error + extract_state" where
  "run_lines st [] = Inr st"
| "run_lines st (line # rest) =
     (case step st line of Inl e \<Rightarrow> Inl e | Inr st' \<Rightarrow> run_lines st' rest)"

definition extract_results :: "string \<Rightarrow> py_error + scenario_result list" where
  "extract_results output =
     map_sum id results (run_lines initial_state (split_lines (str_strip output)))"

section \<open>Printed output\<close>

text \<open>
  What the script prints is modelled as a list of output items, one constructor per
  \<open>print\<close> statement (or group of adjacent statements printing fixed text), carrying
  the values that the statement formats. Numbers are carried before formatting. The
  external steps (compiling and running the two programs) are not modelled: their
  results are inputs of the model and their progress lines are left out.
\<close>

datatype level_label = LevelName "string option" | DefaultLevelName "int option"

datatype out_line =
    Title
  | FailedCompileJava
  | FailedCompileRust
  | NoValidTimes string
  | StatsHeader string
  | SuccessfulRuns nat
  | AverageTime real
  | MedianTime real
  | MinTime real
  | MaxTime real
  | StdDeviation real
  | ComparingHeader
  | AccuracyHeader
  | LevelHeader int "string option"
  | ExampleHeader nat
  | CandidateLine string
  | ReferenceLine string
  | JavaScores real real real
  | RustScores real real real
  | MatchLine
  | DifferencesLine real real real
  | FinalReportHeader
  | PerformanceHeader
  | JavaAverage real real
  | RustAverage real real
  | RustWarmAverage real
  | RustFaster real
  | JavaFaster real
  | ScenarioSummaryHeader
  | LevelSummaryHeader "int option" level_label
  | LevelExamples nat
  | LevelAverageF real
  | LevelMatchRate real nat nat
  | OverallLine nat nat real
  | FStatsHeader
  | FAverage real
  | FMedian real
  | FMin real
  | FMax real
  | Notes

text \<open>
  A computation that prints and may raise: the lines printed so far, and either the
  exception or the value returned.
\<close>

type_synonym 'a io = "out_line list \<times> (py_error + 'a)"

definition io_return :: "'a \<Rightarrow> 'a io" where
  "io_return x = ([], Inr x)"

definition io_print :: "out_line \<Rightarrow> unit io" where
  "io_print l = ([l], Inr ())"

definition io_lift :: "py_error + 'a \<Rightarrow> 'a io" where
  "io_lift r = ([], r)"

definition io_bind :: "'a io \<Rightarrow> ('a \<Rightarrow> 'b io) \<Rightarrow> 'b io" where
  "io_bind m f =
     (case snd m of
        Inl e \<Rightarrow> (fst m, Inl e)
      | Inr x \<Rightarrow> (fst m @ fst (f x), snd (f x)))"

fun io_seq :: "unit io list \<Rightarrow> unit io" where
  "io_seq [] = io_return ()"
| "io_seq (m # ms) = io_bind m (\<lambda>_. io_seq ms)"

section \<open>Statistics\<close>

text \<open>
  \<open>statistics.mean\<close>, \<open>statistics.median\<close>, \<open>statistics.stdev\<close> and the builtins
  \<open>min\<close> and \<open>max\<close> on a list of floats, each with the exception it raises on a list
  that is too short.
\<close>

definition mean :: "real list \<Rightarrow> py_error + real" where
  "mean xs = (if xs = [] then Inl StatisticsError else Inr (sum_list xs / real (length xs)))"

definition median :: "real list \<Rightarrow> py_error + real" where
  "median xs =
     (let data = sort xs; n = length data in
      if n = 0 then Inl StatisticsError
      else if n mod 2 = 1 then Inr (data ! (n div 2))
      else Inr ((data ! (n div 2 - 1) + data ! (n div 2)) / 2))"

fun py_min :: "real list \<Rightarrow> py_error + real" where
  "py_min [] = Inl ValueError"
| "py_min (x # xs) = Inr (foldl min x xs)"

fun py_max :: "real list \<Rightarrow> py_error + real" where
  "py_max [] = Inl ValueError"
| "py_max (x # xs) = Inr (foldl max x xs)"

definition stdev :: "real list \<Rightarrow> py_error + real" where
  "stdev xs =
     (if length xs < 2 then Inl StatisticsError
      else (let m = sum_list xs / real (length xs) in
            Inr (sqrt (sum_list (map (\<lambda>x. (x - m)\<^sup>2) xs) / real (length xs - 1)))))"

text \<open>A \<open>print\<close> whose f-string evaluates an expression that may raise.\<close>

definition print_value :: "(real \<Rightarrow> out_line) \<Rightarrow> py_error + real \<Rightarrow> unit io" where
  "print_value mk r = io_bind (io_lift r) (\<lambda>v. io_print (mk v))"

text \<open>\<open>print_statistics\<close> (lines 232-245); \<open>timings\<close> is its parameter \<open>times\<close>.\<close>

definition print_statistics :: "real list \<Rightarrow> string \<Rightarrow> unit io" where
  "print_statistics timings language =
     (if timings = [] then io_print (NoValidTimes language)
      else io_seq
        [io_print (StatsHeader language),
         io_print (SuccessfulRuns (length timings)),
         print_value AverageTime (mean timings),
         print_value MedianTime (median timings),
         print_value MinTime (py_min timings),
         print_value MaxTime (py_max timings),
         if length timings > 1 then print_value StdDeviation (stdev timings) else io_return ()])"

section \<open>The comparator\<close>

text \<open>The test at line 222 on one aligned pair, and the one at lines 315-316.\<close>

definition results_match :: "scenario_result \<Rightarrow> scenario_result \<Rightarrow> bool" where
  "results_match j_res r_res =
     (\<bar>f_measure j_res - f_measure r_res\<bar> < 0.0001 \<and>
      \<bar>precision j_res - precision r_res\<bar> < 0.0001 \<and>
      \<bar>recall j_res - recall r_res\<bar> < 0.0001)"

definition f_measure_match :: "scenario_result \<Rightarrow> scenario_result \<Rightarrow> bool" where
  "f_measure_match j_res r_res = (\<bar>f_measure j_res - f_measure r_res\<bar> < 0.0001)"

text \<open>The snippet preview of lines 208 and 211.\<close>

definition preview :: "string \<Rightarrow> string" where
  "preview s = (if length s > 60 then take 60 s @ ''...'' else s)"

definition snippet_lines :: "(string \<Rightarrow> out_line) \<Rightarrow> string option \<Rightarrow> out_line list" where
  "snippet_lines mk snippet =
     (case snippet of
        None \<Rightarrow> []
      | Some s \<Rightarrow> if s = [] then [] else [mk (preview s)])"

text \<open>
  The loop at lines 197-225 over the zipped sequences: \<open>cur_level\<close> is the function's
  variable \<open>current_level\<close> and \<open>i\<close> the index counted from 1.
\<close>

fun compare_loop ::
  "int option \<Rightarrow> nat \<Rightarrow> (scenario_result \<times> scenario_result) list \<Rightarrow> out_line list" where
  "compare_loop cur_level i [] = []"
| "compare_loop cur_level i ((j_res, r_res) # rest) =
     (let new_level = (level j_res \<noteq> cur_level \<and> level j_res \<noteq> None);
          header = (case level j_res of
                      Some l \<Rightarrow> if new_level then [LevelHeader l (level_name j_res)] else []
                    | None \<Rightarrow> [])
      in header @
         [ExampleHeader i] @
         snippet_lines CandidateLine (candidate j_res) @
         snippet_lines ReferenceLine (reference j_res) @
         [JavaScores (f_measure j_res) (precision j_res) (recall j_res),
          RustScores (f_measure r_res) (precision r_res) (recall r_res),
          if results_match j_res r_res then MatchLine
          else DifferencesLine \<bar>f_measure j_res - f_measure r_res\<bar>
                               \<bar>precision j_res - precision r_res\<bar>
                               \<bar>recall j_res - recall r_res\<bar>] @
         compare_loop (if new_level then level j_res else cur_level) (Suc i) rest)"

text \<open>
  \<open>compare_results\<close> (lines 172-230), given the standard output of the two programs
  that it runs.
\<close>

definition compare_results ::
  "string \<Rightarrow> string \<Rightarrow> (scenario_result list \<times> scenario_result list) io" where
  "compare_results java_stdout rust_stdout =
     io_bind (io_print ComparingHeader) (\<lambda>_.
     io_bind (io_lift (extract_results java_stdout)) (\<lambda>java_results.
     io_bind (io_lift (extract_results rust_stdout)) (\<lambda>rust_results.
     io_bind (io_print AccuracyHeader) (\<lambda>_.
       if length java_results = length rust_results then
         (compare_loop None 1 (zip java_results rust_results),
          Inr (java_results, rust_results))
       else io_return ([], [])))))"

section \<open>The final report of \<open>main\<close>\<close>

text \<open>ZeroDivisionError of float division.\<close>

definition py_div :: "real \<Rightarrow> real \<Rightarrow> py_error + real" where
  "py_div a b = (if b = 0 then Inl ZeroDivisionError else Inr (a / b))"

text \<open>The performance summary (lines 279-300).\<close>

definition performance_summary :: "real list \<Rightarrow> real list \<Rightarrow> unit io" where
  "performance_summary java_times rust_times =
     (if java_times \<noteq> [] \<and> rust_times \<noteq> [] then
        io_bind (io_lift (mean java_times)) (\<lambda>java_avg.
        io_bind (io_lift (mean rust_times)) (\<lambda>rust_avg.
        io_bind (io_lift (median java_times)) (\<lambda>java_median.
        io_bind (io_lift (median rust_times)) (\<lambda>rust_median.
        let rust_warm_times = (if length rust_times > 1 then tl rust_times else rust_times) in
        io_bind (if rust_warm_times \<noteq> [] then io_lift (mean rust_warm_times)
                 else io_return rust_avg) (\<lambda>rust_warm_avg.
        io_seq
          [io_print PerformanceHeader,
           io_print (JavaAverage java_avg java_median),
           io_print (RustAverage rust_avg rust_median),
           io_print (RustWarmAverage rust_warm_avg),
           if rust_warm_avg < java_avg
           then print_value RustFaster (py_div java_avg rust_warm_avg)
           else print_value JavaFaster (py_div rust_warm_avg java_avg)])))))
      else io_return ())"

text \<open>
  One value of the \<open>defaultdict\<close> \<open>level_stats\<close> (line 306). The dictionary itself is
  an association list in insertion order, keyed by the level of the Java record, which
  may be \<open>None\<close>.
\<close>

record level_stat =
  count :: nat
  f_scores :: "real list"
  matched :: nat

type_synonym level_stats = "(int option \<times> level_stat) list"

fun dict_set :: "'k \<Rightarrow> 'v \<Rightarrow> ('k \<times> 'v) list \<Rightarrow> ('k \<times> 'v) list" where
  "dict_set k v [] = [(k, v)]"
| "dict_set k v ((k', v') # d) =
     (if k' = k then (k, v) # d else (k', v') # dict_set k v d)"

definition stats_of :: "level_stats \<Rightarrow> int option \<Rightarrow> level_stat" where
  "stats_of level_stats lvl =
     (case map_of level_stats lvl of
        None \<Rightarrow> \<lparr>count = 0, f_scores = [], matched = 0\<rparr>
      | Some stats \<Rightarrow> stats)"

text \<open>The body of the loop at lines 308-317.\<close>

definition add_pair :: "level_stats \<Rightarrow> scenario_result \<times> scenario_result \<Rightarrow> level_stats" where
  "add_pair level_stats pair =
     (let j_res = fst pair; r_res = snd pair; lvl = level j_res;
          stats = stats_of level_stats lvl
      in dict_set lvl
           (stats\<lparr>count := count stats + 1,
                  f_scores := f_scores stats @ [f_measure j_res],
                  matched := (if f_measure_match j_res r_res then matched stats + 1
                              else matched stats)\<rparr>)
           level_stats)"

definition build_level_stats ::
  "scenario_result list \<Rightarrow> scenario_result list \<Rightarrow> level_stats" where
  "build_level_stats java_results rust_results =
     foldl add_pair [] (zip java_results rust_results)"

text \<open>The body of the loop at lines 321-324: \<open>if level\<close> is false for \<open>None\<close> and for 0.\<close>

definition add_name :: "(int \<times> string option) list \<Rightarrow> scenario_result \<Rightarrow> (int \<times> string option) list" where
  "add_name level_names j_res =
     (case level j_res of
        None \<Rightarrow> level_names
      | Some l \<Rightarrow>
          if l \<noteq> 0 \<and> map_of level_names l = None
          then level_names @ [(l, level_name j_res)]
          else level_names)"

text \<open>
  \<open>sorted(level_stats.keys())\<close>: comparing \<open>None\<close> with an integer is a TypeError, and
  sorting two or more keys compares each of them with another.
\<close>

definition sorted_keys :: "int option list \<Rightarrow> py_error + int option list" where
  "sorted_keys ks =
     (if None \<in> set ks then (if length ks \<le> 1 then Inr ks else Inl TypeError)
      else Inr (map Some (sort (List.map_filter id ks))))"

text \<open>The body of the loop at lines 326-335.\<close>

definition level_report ::
  "level_stats \<Rightarrow> (int \<times> string option) list \<Rightarrow> int option \<Rightarrow> unit io" where
  "level_report level_stats level_names lvl =
     (let stats = stats_of level_stats lvl;
          label = (case lvl of
                     None \<Rightarrow> DefaultLevelName lvl
                   | Some l \<Rightarrow> (case map_of level_names l of
                                  None \<Rightarrow> DefaultLevelName lvl
                                | Some n \<Rightarrow> LevelName n));
          match_rate = (if count stats > 0
                        then real (matched stats) / real (count stats) * 100 else 0)
      in io_bind (if f_scores stats \<noteq> [] then io_lift (mean (f_scores stats))
                  else io_return 0) (\<lambda>avg_f.
         io_seq
           [io_print (LevelSummaryHeader lvl label),
            io_print (LevelExamples (count stats)),
            io_print (LevelAverageF avg_f),
            io_print (LevelMatchRate match_rate (matched stats) (count stats))]))"

text \<open>Lines 338-340.\<close>

definition total_matched :: "level_stats \<Rightarrow> nat" where
  "total_matched level_stats = sum_list (map (\<lambda>kv. matched (snd kv)) level_stats)"

definition total_examples :: "level_stats \<Rightarrow> nat" where
  "total_examples level_stats = sum_list (map (\<lambda>kv. count (snd kv)) level_stats)"

definition overall_match_rate :: "level_stats \<Rightarrow> real" where
  "overall_match_rate level_stats =
     (if total_examples level_stats > 0
      then real (total_matched level_stats) / real (total_examples level_stats) * 100
      else 0)"

text \<open>The scenario summary (lines 303-350).\<close>

definition scenario_summary :: "scenario_result list \<Rightarrow> scenario_result list \<Rightarrow> unit io" where
  "scenario_summary java_results rust_results =
     (if java_results \<noteq> [] \<and> rust_results \<noteq> [] then
        (let level_stats = build_level_stats java_results rust_results;
             level_names = foldl add_name [] java_results;
             all_f_scores = map f_measure java_results
         in io_bind (io_print ScenarioSummaryHeader) (\<lambda>_.
            io_bind (io_lift (sorted_keys (map fst level_stats))) (\<lambda>keys.
            io_bind (io_seq (map (level_report level_stats level_names) keys)) (\<lambda>_.
            io_seq
              [io_print (OverallLine (total_examples level_stats) (total_matched level_stats)
                           (overall_match_rate level_stats)),
               io_print FStatsHeader,
               print_value FAverage (mean all_f_scores),
               print_value FMedian (median all_f_scores),
               print_value FMin (py_min all_f_scores),
               print_value FMax (py_max all_f_scores)]))))
      else io_return ())"

text \<open>
  What \<open>main\<close> gets from the external steps: whether each program compiled, the
  timings \<open>run_java\<close> and \<open>run_rust\<close> return, and the standard output of the two runs
  made by \<open>compare_results\<close>.
\<close>

record run_env =
  compile_java_ok :: bool
  compile_rust_ok :: bool
  java_times :: "real list"
  rust_times :: "real list"
  java_stdout :: string
  rust_stdout :: string

text \<open>\<open>main\<close> (lines 247-359).\<close>

definition main :: "run_env \<Rightarrow> unit io" where
  "main env =
     io_bind (io_print Title) (\<lambda>_.
       if \<not> compile_java_ok env then io_print FailedCompileJava
       else if \<not> compile_rust_ok env then io_print FailedCompileRust
       else
         io_bind (print_statistics (java_times env) ''Java'') (\<lambda>_.
         io_bind (print_statistics (rust_times env) ''Rust'') (\<lambda>_.
         io_bind (compare_results (java_stdout env) (rust_stdout env)) (\<lambda>res.
         io_bind (io_print FinalReportHeader) (\<lambda>_.
         io_bind (performance_summary (java_times env) (rust_times env)) (\<lambda>_.
         io_bind (scenario_summary (fst res) (snd res)) (\<lambda>_.
         io_print Notes)))))))"

section \<open>Notions used to state the properties\<close>

text \<open>A line for which the loop body reaches the branch of line 152.\<close>

definition results_branch :: "string \<Rightarrow> bool" where
  "results_branch line =
     (\<not> is_level_line line \<and> \<not> is_example_line line \<and> \<not> is_candidate_line line \<and>
      \<not> is_reference_line line \<and> has_results_label line)"

text \<open>A line for which the loop body reaches line 144, and one that assigns the level.\<close>

definition sets_example :: "string \<Rightarrow> bool" where
  "sets_example line = (\<not> is_level_line line \<and> is_example_line line)"




text \<open>
  A line for which the loop body appends a record: it reaches the branch of line 152 and
  \<open>findall\<close> gives at least three matches there (line 154). And a line on which
  the loop body raises: it reaches line 144 and the expression there has no value.
\<close>

definition emits :: "string \<Rightarrow> bool" where
  "emits line = (results_branch line \<and> 3 \<le> length (findall line))"


text \<open>
  The first three matches of a line read as numbers, and the three scores of a record.
\<close>

definition triple_of :: "string \<Rightarrow> real \<times> real \<times> real" where
  "triple_of line =
     (py_float (findall line ! 0), py_float (findall line ! 1), py_float (findall line ! 2))"

definition scores :: "scenario_result \<Rightarrow> real \<times> real \<times> real" where
  "scores r = (f_measure r, precision r, recall r)"

text \<open>The line of the per-example comparison that carries the verdict (lines 222-225).\<close>

definition is_verdict_line :: "out_line \<Rightarrow> bool" where
  "is_verdict_line l =
     (case l of MatchLine \<Rightarrow> True | DifferencesLine f p r \<Rightarrow> True | _ \<Rightarrow> False)"

text \<open>The same run with the outputs of the two programs exchanged.\<close>

definition swap_outputs :: "run_env \<Rightarrow> run_env" where
  "swap_outputs env = env\<lparr>java_stdout := rust_stdout env, rust_stdout := java_stdout env\<rparr>"

section \<open>The extractor on concrete texts\<close>

lemmas line_shape_defs = is_level_line_def is_example_line_def is_candidate_line_def
  is_reference_line_def has_results_label_def startswith_def str_strip_def isspace_def

lemmas token_defs = level_match_at_def example_ordinal_def py_int_def unsigned_int_def
  str_split_def str_rstrip_def nat_of_digits_def digit_val_def isdigit_def

lemma step_level_1:
  "step st ''--- Level 1: Basic Text ---'' =
     Inr (st\<lparr>current_level := Some 1, current_level_name := Some ''Basic Text ---''\<rparr>)"
  by (simp add: step_def line_shape_defs token_defs)

lemma step_example_1: "step st ''Example 1:'' = Inr (st\<lparr>current_example := Some 1\<rparr>)"
  by (simp add: step_def line_shape_defs token_defs)

lemma step_candidate_cat:
  "step st ''Candidate: the cat sat'' = Inr (st\<lparr>current_candidate := Some ''the cat sat''\<rparr>)"
  by (simp add: step_def line_shape_defs)

lemma step_reference_cat:
  "step st ''Reference: the cat sat on the mat'' =
     Inr (st\<lparr>current_reference := Some ''the cat sat on the mat''\<rparr>)"
  by (simp add: step_def line_shape_defs)

lemma findall_f_line:
  "findall ''F-Measure: 0.6000, Precision: 1.0000, Recall: 0.4000'' =
     [''0.6000'', ''1.0000'', ''0.4000'']"
  by code_simp

lemma step_f_line:
  "step st ''F-Measure: 0.6000, Precision: 1.0000, Recall: 0.4000'' =
     Inr (st\<lparr>results := results st @ [make_result st [''0.6000'', ''1.0000'', ''0.4000'']],
             current_candidate := None, current_reference := None\<rparr>)"
  by (simp add: step_def line_shape_defs findall_f_line del: findall.simps)

lemma py_float_06: "py_float ''0.6000'' = 0.6"
  by (simp add: py_float_def nat_of_digits_def digit_val_def)

lemma py_float_10: "py_float ''1.0000'' = 1"
  by (simp add: py_float_def nat_of_digits_def digit_val_def)

lemma py_float_04: "py_float ''0.4000'' = 0.4"
  by (simp add: py_float_def nat_of_digits_def digit_val_def)

lemma scenario_lines:
  "split_lines (str_strip (''--- Level 1: Basic Text ---'' @ [CHR 0x0A] @ ''Example 1:'' @ [CHR 0x0A] @
       ''Candidate: the cat sat'' @ [CHR 0x0A] @ ''Reference: the cat sat on the mat'' @ [CHR 0x0A] @
       ''F-Measure: 0.6000, Precision: 1.0000, Recall: 0.4000'')) =
   [''--- Level 1: Basic Text ---'', ''Example 1:'', ''Candidate: the cat sat'',
    ''Reference: the cat sat on the mat'',
    ''F-Measure: 0.6000, Precision: 1.0000, Recall: 0.4000'']"
  by (simp add: split_lines_def str_strip_def isspace_def)

text \<open>
  Claim C3. On the text of the end-to-end scenario the extractor returns exactly one
  record with level 1, example 1, the two snippets and the scores 0.6, 1.0 and 0.4, but
  its level name is \<open>Basic Text ---\<close>, not \<open>Basic Text\<close>: group 2 of the regular
  expression runs to the end of the line, and \<open>strip()\<close> removes only whitespace.
\<close>

theorem end_to_end_scenario_level_name:
  "extract_results (''--- Level 1: Basic Text ---'' @ [CHR 0x0A] @ ''Example 1:'' @ [CHR 0x0A] @
       ''Candidate: the cat sat'' @ [CHR 0x0A] @ ''Reference: the cat sat on the mat'' @ [CHR 0x0A] @
       ''F-Measure: 0.6000, Precision: 1.0000, Recall: 0.4000'') =
   Inr [\<lparr>example_num = Some 1, level = Some 1, level_name = Some ''Basic Text ---'',
         candidate = Some ''the cat sat'', reference = Some ''the cat sat on the mat'',
         f_measure = 0.6, precision = 1, recall = 0.4\<rparr>]"
  unfolding extract_results_def scenario_lines
  by (simp add: step_level_1 step_example_1 step_candidate_cat step_reference_cat step_f_line
        initial_state_def make_result_def py_float_06 py_float_10 py_float_04)

text \<open>
  Claim C6. For an empty list of samples \<open>print_statistics\<close> prints the single line
  saying that no valid times were recorded, and no number. For one sample it prints the
  count, mean, median, minimum and maximum, and no line for the standard deviation.
\<close>

theorem print_statistics_no_data_and_single_sample:
  "print_statistics [] language = ([NoValidTimes language], Inr ()) \<and>
   print_statistics [x] language =
     ([StatsHeader language, SuccessfulRuns 1, AverageTime x, MedianTime x, MinTime x, MaxTime x],
      Inr ())"
  by (simp add: print_statistics_def print_value_def io_bind_def io_print_def io_lift_def
        io_return_def mean_def median_def)







lemma step_results_branch:
  assumes "results_branch line"
  shows "step st line =
           (if 3 \<le> length (findall line)
            then Inr (st\<lparr>results := results st @ [make_result st (findall line)],
                         current_candidate := None, current_reference := None\<rparr>)
            else Inr st)"
  using assms by (simp add: step_def results_branch_def)


section \<open>The loop of the extractor, line by line\<close>

lemma run_lines_append:
  "run_lines st (a @ b) =
     (case run_lines st a of Inl e \<Rightarrow> Inl e | Inr st' \<Rightarrow> run_lines st' b)"
  by (induction a arbitrary: st) (auto split: sum.splits)











text \<open>What one iteration does to the list of records and to the context.\<close>

lemma step_results:
  assumes "step st line = Inr st'"
  shows "results st' = results st @ (if emits line then [make_result st (findall line)] else [])"
  using assms
  by (auto simp add: step_def emits_def results_branch_def Let_def
        split: if_splits option.splits sum.splits)

lemma step_same_example:
  "\<not> sets_example line \<Longrightarrow> step st line = Inr st' \<Longrightarrow> current_example st' = current_example st"
  by (auto simp add: step_def sets_example_def Let_def split: if_splits option.splits sum.splits)

lemma step_sets_example:
  "sets_example line \<Longrightarrow> example_ordinal line = Inr n \<Longrightarrow>
   step st line = Inr (st\<lparr>current_example := Some n\<rparr>)"
  by (simp add: step_def sets_example_def)


lemma scores_make_result: "scores (make_result st (findall line)) = triple_of line"
  by (simp add: scores_def make_result_def triple_of_def)

lemma run_lines_results:
  "run_lines st lines = Inr st' \<Longrightarrow>
   \<exists>new. results st' = results st @ new \<and>
         map scores new = map triple_of (filter emits lines)"
proof (induction lines arbitrary: st)
  case Nil
  then show ?case by simp
next
  case (Cons l ls)
  from Cons.prems obtain st1 where s: "step st l = Inr st1"
    and r: "run_lines st1 ls = Inr st'"
    by (auto split: sum.splits)
  from Cons.IH[OF r] obtain new where n: "results st' = results st1 @ new"
    and m: "map scores new = map triple_of (filter emits ls)" by blast
  show ?case
  proof (cases "emits l")
    case True
    with step_results[OF s] n
    have "results st' = results st @ (make_result st (findall l) # new)" by simp
    moreover have "map scores (make_result st (findall l) # new) =
        map triple_of (filter emits (l # ls))"
      using True m by (simp add: scores_make_result)
    ultimately show ?thesis by blast
  next
    case False
    with step_results[OF s] n have "results st' = results st @ new" by simp
    moreover have "map scores new = map triple_of (filter emits (l # ls))"
      using False m by simp
    ultimately show ?thesis by blast
  qed
qed

lemma run_lines_same_example:
  "run_lines st lines = Inr st' \<Longrightarrow> list_all (\<lambda>l. \<not> sets_example l) lines \<Longrightarrow>
   current_example st' = current_example st \<and>
   (\<exists>new. results st' = results st @ new \<and>
          list_all (\<lambda>r. example_num r = current_example st) new)"
proof (induction lines arbitrary: st)
  case Nil
  then show ?case by simp
next
  case (Cons l ls)
  from Cons.prems(1) obtain st1 where s: "step st l = Inr st1"
    and r: "run_lines st1 ls = Inr st'"
    by (auto split: sum.splits)
  from Cons.prems(2) have nl: "\<not> sets_example l"
    and rest: "list_all (\<lambda>l. \<not> sets_example l) ls" by simp_all
  have c: "current_example st1 = current_example st"
    by (rule step_same_example[OF nl s])
  from Cons.IH[OF r rest] c obtain new where e: "current_example st' = current_example st"
    and n: "results st' = results st1 @ new"
    and a: "list_all (\<lambda>r. example_num r = current_example st) new" by auto
  have "results st' = results st @ ((if emits l then [make_result st (findall l)] else []) @ new)"
    using step_results[OF s] n by simp
  moreover have "list_all (\<lambda>r. example_num r = current_example st)
      ((if emits l then [make_result st (findall l)] else []) @ new)"
    using a by (simp add: make_result_def)
  ultimately show ?case using e by blast
qed


lemma extract_results_Inr:
  "extract_results output = Inr rs \<longleftrightarrow>
   (\<exists>st'. run_lines initial_state (split_lines (str_strip output)) = Inr st' \<and> rs = results st')"
  by (cases "run_lines initial_state (split_lines (str_strip output))")
     (auto simp add: extract_results_def)

lemma py_float_05: "py_float ''0.5000'' = 0.5"
  by (simp add: py_float_def nat_of_digits_def digit_val_def)

lemma py_float_025: "py_float ''0.2500'' = 0.25"
  by (simp add: py_float_def nat_of_digits_def digit_val_def)

lemma py_float_075: "py_float ''0.7500'' = 0.75"
  by (simp add: py_float_def nat_of_digits_def digit_val_def)

lemma results_branch_f_line:
  "results_branch ''F-Measure: 0.6000, Precision: 1.0000, Recall: 0.4000''"
  by (simp add: results_branch_def line_shape_defs)

lemma findall_result_line:
  "findall ''Result: 0.5000, 0.2500, 0.7500'' = [''0.5000'', ''0.2500'', ''0.7500'']"
  by code_simp

lemma results_branch_result_line: "results_branch ''Result: 0.5000, 0.2500, 0.7500''"
  by (simp add: results_branch_def line_shape_defs)

lemma step_result_line:
  "step st ''Result: 0.5000, 0.2500, 0.7500'' =
     Inr (st\<lparr>results := results st @ [make_result st [''0.5000'', ''0.2500'', ''0.7500'']],
             current_candidate := None, current_reference := None\<rparr>)"
  by (simp add: step_results_branch results_branch_result_line findall_result_line
        del: findall.simps)

section \<open>Several results lines for one example\<close>

text \<open>
  Claim C1, as amended. Take any text on which the extractor returns, and any line of it
  that assigns the example ordinal \<open>n\<close>, followed by lines \<open>seg\<close> none of which
  assigns the ordinal again (level headers, snippets and any other lines may stand among
  them). Then the records for that stretch are one for each record-emitting line of
  \<open>seg\<close>: they stand together in the returned list, after the records of the lines
  before and ahead of those of the lines after, in line order, each with ordinal \<open>n\<close>
  and the scores of its own line. Nothing keeps only the first of them.
\<close>

theorem results_lines_of_one_example_each_give_a_record:
  assumes "split_lines (str_strip output) = before @ ex # seg @ after"
    and "sets_example ex" and "example_ordinal ex = Inr n"
    and "list_all (\<lambda>l. \<not> sets_example l) seg"
    and "extract_results output = Inr rs"
  shows "\<exists>rb rseg ra. rs = rb @ rseg @ ra \<and>
           length rb = length (filter emits before) \<and>
           length rseg = length (filter emits seg) \<and>
           length ra = length (filter emits after) \<and>
           map scores rseg = map triple_of (filter emits seg) \<and>
           list_all (\<lambda>r. example_num r = Some n) rseg"
proof -
  from assms(5) obtain stf
    where rf: "run_lines initial_state (split_lines (str_strip output)) = Inr stf"
    and rs: "rs = results stf"
    by (auto simp add: extract_results_Inr)
  from rf have "run_lines initial_state (before @ ex # seg @ after) = Inr stf"
    by (simp only: assms(1))
  then obtain s1 s2 s3 where b: "run_lines initial_state before = Inr s1"
    and e: "step s1 ex = Inr s2" and g: "run_lines s2 seg = Inr s3"
    and a: "run_lines s3 after = Inr stf"
    by (auto simp add: run_lines_append split: sum.splits)
  from step_sets_example[OF assms(2) assms(3), of s1] e
  have s2: "s2 = s1\<lparr>current_example := Some n\<rparr>" by simp
  from run_lines_results[OF b] obtain rb where rb: "results s1 = rb"
    and mb: "map scores rb = map triple_of (filter emits before)"
    by (auto simp add: initial_state_def)
  from run_lines_results[OF g] obtain rseg where rg: "results s3 = results s2 @ rseg"
    and mg: "map scores rseg = map triple_of (filter emits seg)" by blast
  from run_lines_same_example[OF g assms(4)] obtain rseg'
    where rg': "results s3 = results s2 @ rseg'"
    and ex: "list_all (\<lambda>r. example_num r = current_example s2) rseg'" by blast
  from rg rg' have "rseg' = rseg" by simp
  with ex have exn: "list_all (\<lambda>r. example_num r = Some n) rseg"
    by (simp add: s2)
  from run_lines_results[OF a] obtain ra where ra: "results stf = results s3 @ ra"
    and ma: "map scores ra = map triple_of (filter emits after)" by blast
  have "rs = rb @ rseg @ ra"
    by (simp add: rs ra rg s2 rb)
  moreover have "length rb = length (filter emits before)"
    using arg_cong[OF mb, of length] by simp
  moreover have "length rseg = length (filter emits seg)"
    using arg_cong[OF mg, of length] by simp
  moreover have "length ra = length (filter emits after)"
    using arg_cong[OF ma, of length] by simp
  ultimately show ?thesis using mg exn by blast
qed

lemma step_level_2:
  "step st ''--- Level 2: Hard ---'' =
     Inr (st\<lparr>current_level := Some 2, current_level_name := Some ''Hard ---''\<rparr>)"
  by (simp add: step_def line_shape_defs token_defs)

lemma step_candidate_foo:
  "step st ''Candidate: foo'' = Inr (st\<lparr>current_candidate := Some ''foo''\<rparr>)"
  by (simp add: step_def line_shape_defs)

lemma interleaved_lines:
  "split_lines (str_strip (''Example 1:'' @ [CHR 0x0A] @
       ''F-Measure: 0.6000, Precision: 1.0000, Recall: 0.4000'' @ [CHR 0x0A] @
       ''--- Level 2: Hard ---'' @ [CHR 0x0A] @ ''Candidate: foo'' @ [CHR 0x0A] @
       ''Result: 0.5000, 0.2500, 0.7500'')) =
   [] @ ''Example 1:'' #
     [''F-Measure: 0.6000, Precision: 1.0000, Recall: 0.4000'', ''--- Level 2: Hard ---'',
      ''Candidate: foo'', ''Result: 0.5000, 0.2500, 0.7500''] @ []"
  by (simp add: split_lines_def str_strip_def isspace_def)

lemma interleaved_records:
  "extract_results (''Example 1:'' @ [CHR 0x0A] @
       ''F-Measure: 0.6000, Precision: 1.0000, Recall: 0.4000'' @ [CHR 0x0A] @
       ''--- Level 2: Hard ---'' @ [CHR 0x0A] @ ''Candidate: foo'' @ [CHR 0x0A] @
       ''Result: 0.5000, 0.2500, 0.7500'') =
   Inr [\<lparr>example_num = Some 1, level = None, level_name = None,
         candidate = None, reference = None,
         f_measure = 0.6, precision = 1, recall = 0.4\<rparr>,
        \<lparr>example_num = Some 1, level = Some 2, level_name = Some ''Hard ---'',
         candidate = Some ''foo'', reference = None,
         f_measure = 0.5, precision = 0.25, recall = 0.75\<rparr>]"
  unfolding extract_results_def interleaved_lines
  by (simp add: step_example_1 step_f_line step_level_2 step_candidate_foo step_result_line
        initial_state_def make_result_def py_float_06 py_float_10 py_float_04 py_float_05
        py_float_025 py_float_075)

text \<open>
  Two results lines for example 1 with a level header and a snippet between them: two
  records with ordinal 1, the second with the level and the snippet read meanwhile.
\<close>

theorem results_lines_of_one_example_each_give_a_record_witness:
  "sets_example ''Example 1:'' \<and> example_ordinal ''Example 1:'' = Inr 1 \<and>
   list_all (\<lambda>l. \<not> sets_example l)
     [''F-Measure: 0.6000, Precision: 1.0000, Recall: 0.4000'', ''--- Level 2: Hard ---'',
      ''Candidate: foo'', ''Result: 0.5000, 0.2500, 0.7500''] \<and>
   (\<exists>rb rseg ra.
      [\<lparr>example_num = Some 1, level = None, level_name = None,
        candidate = None, reference = None,
        f_measure = 0.6, precision = 1, recall = 0.4\<rparr>,
       \<lparr>example_num = Some 1, level = Some 2, level_name = Some ''Hard ---'',
        candidate = Some ''foo'', reference = None,
        f_measure = 0.5, precision = 0.25, recall = 0.75\<rparr>] = rb @ rseg @ ra \<and>
      length rb = 0 \<and> length rseg = 2 \<and> length ra = 0 \<and>
      map scores rseg = [(0.6, 1, 0.4), (0.5, 0.25, 0.75)] \<and>
      list_all (\<lambda>r. example_num r = Some 1) rseg)"
proof -
  have h2: "sets_example ''Example 1:''"
    by (simp add: sets_example_def line_shape_defs)
  have h3: "example_ordinal ''Example 1:'' = Inr 1"
    by (simp add: token_defs isspace_def str_strip_def)
  have h4: "list_all (\<lambda>l. \<not> sets_example l)
     [''F-Measure: 0.6000, Precision: 1.0000, Recall: 0.4000'', ''--- Level 2: Hard ---'',
      ''Candidate: foo'', ''Result: 0.5000, 0.2500, 0.7500'']"
    by (simp add: sets_example_def line_shape_defs)
  have em: "filter emits
     [''F-Measure: 0.6000, Precision: 1.0000, Recall: 0.4000'', ''--- Level 2: Hard ---'',
      ''Candidate: foo'', ''Result: 0.5000, 0.2500, 0.7500''] =
     [''F-Measure: 0.6000, Precision: 1.0000, Recall: 0.4000'',
      ''Result: 0.5000, 0.2500, 0.7500'']"
    by (simp add: emits_def results_branch_f_line results_branch_result_line findall_f_line
          findall_result_line del: findall.simps)
       (simp add: results_branch_def line_shape_defs)
  have tr: "map triple_of [''F-Measure: 0.6000, Precision: 1.0000, Recall: 0.4000'',
      ''Result: 0.5000, 0.2500, 0.7500''] = [(0.6, 1, 0.4), (0.5, 0.25, 0.75)]"
    by (simp add: triple_of_def findall_f_line findall_result_line py_float_06 py_float_10
          py_float_04 py_float_05 py_float_025 py_float_075 del: findall.simps)
  from results_lines_of_one_example_each_give_a_record
         [OF interleaved_lines h2 h3 h4 interleaved_records]
  have "\<exists>rb rseg ra.
      [\<lparr>example_num = Some 1, level = None, level_name = None,
        candidate = None, reference = None,
        f_measure = 0.6, precision = 1, recall = 0.4\<rparr>,
       \<lparr>example_num = Some 1, level = Some 2, level_name = Some ''Hard ---'',
        candidate = Some ''foo'', reference = None,
        f_measure = 0.5, precision = 0.25, recall = 0.75\<rparr>] = rb @ rseg @ ra \<and>
      length rb = 0 \<and> length rseg = 2 \<and> length ra = 0 \<and>
      map scores rseg = [(0.6, 1, 0.4), (0.5, 0.25, 0.75)] \<and>
      list_all (\<lambda>r. example_num r = Some 1) rseg"
    unfolding em tr by simp
  with h2 h3 h4 show ?thesis by blast
qed

text \<open>
  Claim C1 as stated fails: a level line, \<open>Example 1:\<close> and two results lines give two
  records for example 1, the second taken from the second line.
\<close>

theorem two_results_lines_give_two_records:
  "extract_results (''--- Level 1: Basic Text ---'' @ [CHR 0x0A] @ ''Example 1:'' @ [CHR 0x0A] @
       ''F-Measure: 0.6000, Precision: 1.0000, Recall: 0.4000'' @ [CHR 0x0A] @
       ''Result: 0.5000, 0.2500, 0.7500'') =
   Inr [\<lparr>example_num = Some 1, level = Some 1, level_name = Some ''Basic Text ---'',
         candidate = None, reference = None,
         f_measure = 0.6, precision = 1, recall = 0.4\<rparr>,
        \<lparr>example_num = Some 1, level = Some 1, level_name = Some ''Basic Text ---'',
         candidate = None, reference = None,
         f_measure = 0.5, precision = 0.25, recall = 0.75\<rparr>]"
proof -
  have lines: "split_lines (str_strip (''--- Level 1: Basic Text ---'' @ [CHR 0x0A] @
       ''Example 1:'' @ [CHR 0x0A] @
       ''F-Measure: 0.6000, Precision: 1.0000, Recall: 0.4000'' @ [CHR 0x0A] @
       ''Result: 0.5000, 0.2500, 0.7500'')) =
     [''--- Level 1: Basic Text ---'', ''Example 1:'',
      ''F-Measure: 0.6000, Precision: 1.0000, Recall: 0.4000'',
      ''Result: 0.5000, 0.2500, 0.7500'']"
    by (simp add: split_lines_def str_strip_def isspace_def)
  show ?thesis
    unfolding extract_results_def lines
    by (simp add: step_level_1 step_example_1 step_f_line step_result_line initial_state_def
          make_result_def py_float_06 py_float_10 py_float_04 py_float_05 py_float_025
          py_float_075)
qed

section \<open>Which lines give a record\<close>




lemma findall_no_triple: "findall ''F-Measure: 0.5000, Precision: n/a'' = [''0.5000'']"
  by code_simp

lemma results_branch_no_triple: "results_branch ''F-Measure: 0.5000, Precision: n/a''"
  by (simp add: results_branch_def line_shape_defs)

lemma step_no_triple: "step st ''F-Measure: 0.5000, Precision: n/a'' = Inr st"
  by (simp add: step_results_branch results_branch_no_triple findall_no_triple
        del: findall.simps)

lemma step_example_2: "step st ''Example 2:'' = Inr (st\<lparr>current_example := Some 2\<rparr>)"
  by (simp add: step_def line_shape_defs token_defs)







section \<open>A results line without three numbers\<close>

text \<open>
  Claim C4, as amended. \<open>extract_results\<close> has no statement that prints, so all it can
  show is its return value or an exception. Take a text whose lines, after the strip of
  the whole text and the split at newlines, are \<open>before\<close>, then a line that reaches the
  results branch with fewer than three decimal numbers, then \<open>after\<close>; and any text
  whose lines are \<open>before\<close> and \<open>after\<close> alone. The extractor returns the same
  records, or raises the same exception, on both; and the comparison prints and returns
  the same with either of them, in either position. So the line leaves no trace: no
  record, no exception, no warning.
\<close>

theorem results_line_without_triple_leaves_no_trace:
  assumes "split_lines (str_strip output) = before @ line # after"
    and "split_lines (str_strip output') = before @ after"
    and "results_branch line" and "length (findall line) < 3"
  shows "extract_results output = extract_results output' \<and>
         compare_results output other = compare_results output' other \<and>
         compare_results other output = compare_results other output'"
proof -
  have s: "\<And>st. step st line = Inr st"
    using assms(3) assms(4) by (simp add: step_results_branch)
  have "run_lines initial_state (before @ line # after) =
        run_lines initial_state (before @ after)"
    by (simp add: run_lines_append s split: sum.splits)
  then have e: "extract_results output = extract_results output'"
    by (simp only: extract_results_def assms(1) assms(2))
  then show ?thesis
    by (simp add: compare_results_def)
qed

lemma with_gap_lines:
  "split_lines (str_strip (''Example 1:'' @ [CHR 0x0A] @ ''F-Measure: 0.5000, Precision: n/a'' @
       [CHR 0x0A] @ ''Example 2:'' @ [CHR 0x0A] @
       ''F-Measure: 0.6000, Precision: 1.0000, Recall: 0.4000'')) =
   [''Example 1:''] @ ''F-Measure: 0.5000, Precision: n/a'' #
     [''Example 2:'', ''F-Measure: 0.6000, Precision: 1.0000, Recall: 0.4000'']"
  by (simp add: split_lines_def str_strip_def isspace_def)

lemma without_gap_lines:
  "split_lines (str_strip (''Example 1:'' @ [CHR 0x0A] @ ''Example 2:'' @ [CHR 0x0A] @
       ''F-Measure: 0.6000, Precision: 1.0000, Recall: 0.4000'')) =
   [''Example 1:''] @
     [''Example 2:'', ''F-Measure: 0.6000, Precision: 1.0000, Recall: 0.4000'']"
  by (simp add: split_lines_def str_strip_def isspace_def)

text \<open>
  Claim C4 as stated fails: the results line of example 1 has no triple, and the
  extractor returns normally with the record of example 2 alone.
\<close>

theorem missing_triple_is_silent:
  "extract_results (''Example 1:'' @ [CHR 0x0A] @ ''F-Measure: 0.5000, Precision: n/a'' @
       [CHR 0x0A] @ ''Example 2:'' @ [CHR 0x0A] @
       ''F-Measure: 0.6000, Precision: 1.0000, Recall: 0.4000'') =
   Inr [\<lparr>example_num = Some 2, level = None, level_name = None, candidate = None,
         reference = None, f_measure = 0.6, precision = 1, recall = 0.4\<rparr>]"
  unfolding extract_results_def with_gap_lines
  by (simp add: step_example_1 step_example_2 step_no_triple step_f_line initial_state_def
        make_result_def py_float_06 py_float_10 py_float_04)

text \<open>
  The text with the incomplete results line of example 1 and the text without it give
  the same record, that of example 2, and the same comparison against an empty output.
\<close>

theorem results_line_without_triple_leaves_no_trace_witness:
  "results_branch ''F-Measure: 0.5000, Precision: n/a'' \<and>
   length (findall ''F-Measure: 0.5000, Precision: n/a'') < 3 \<and>
   extract_results (''Example 1:'' @ [CHR 0x0A] @ ''F-Measure: 0.5000, Precision: n/a'' @
       [CHR 0x0A] @ ''Example 2:'' @ [CHR 0x0A] @
       ''F-Measure: 0.6000, Precision: 1.0000, Recall: 0.4000'') =
   extract_results (''Example 1:'' @ [CHR 0x0A] @ ''Example 2:'' @ [CHR 0x0A] @
       ''F-Measure: 0.6000, Precision: 1.0000, Recall: 0.4000'') \<and>
   compare_results (''Example 1:'' @ [CHR 0x0A] @ ''F-Measure: 0.5000, Precision: n/a'' @
       [CHR 0x0A] @ ''Example 2:'' @ [CHR 0x0A] @
       ''F-Measure: 0.6000, Precision: 1.0000, Recall: 0.4000'') [] =
   compare_results (''Example 1:'' @ [CHR 0x0A] @ ''Example 2:'' @ [CHR 0x0A] @
       ''F-Measure: 0.6000, Precision: 1.0000, Recall: 0.4000'') []"
proof -
  have n: "length (findall ''F-Measure: 0.5000, Precision: n/a'') < 3"
    by (simp add: findall_no_triple del: findall.simps)
  from results_line_without_triple_leaves_no_trace
         [OF with_gap_lines without_gap_lines results_branch_no_triple n, of "[]"]
  show ?thesis using n results_branch_no_triple by blast
qed

section \<open>When the extractor returns, and when it raises\<close>








section \<open>Order of the printed statistics\<close>

lemma foldl_min_le: "foldl min (a::real) xs \<le> a \<and> list_all (\<lambda>y. foldl min a xs \<le> y) xs"
proof (induction xs arbitrary: a)
  case Nil
  show ?case by simp
next
  case (Cons b xs)
  from Cons[of "min a b"] show ?case by simp
qed

lemma foldl_max_ge: "(a::real) \<le> foldl max a xs \<and> list_all (\<lambda>y. y \<le> foldl max a xs) xs"
proof (induction xs arbitrary: a)
  case Nil
  show ?case by simp
next
  case (Cons b xs)
  from Cons[of "max a b"] show ?case by simp
qed

lemma foldl_min_mem: "foldl min (a::real) xs \<in> set (a # xs)"
proof (induction xs arbitrary: a)
  case Nil
  show ?case by simp
next
  case (Cons b xs)
  from Cons[of "min a b"] show ?case by (auto simp add: min_def split: if_splits)
qed

lemma foldl_max_mem: "foldl max (a::real) xs \<in> set (a # xs)"
proof (induction xs arbitrary: a)
  case Nil
  show ?case by simp
next
  case (Cons b xs)
  from Cons[of "max a b"] show ?case by (auto simp add: max_def split: if_splits)
qed

lemma py_min_least:
  "ts \<noteq> [] \<Longrightarrow> \<exists>lo. py_min ts = Inr lo \<and> lo \<in> set ts \<and> list_all (\<lambda>t. lo \<le> t) ts"
  using foldl_min_le foldl_min_mem by (cases ts) auto

lemma py_max_greatest:
  "ts \<noteq> [] \<Longrightarrow> \<exists>hi. py_max ts = Inr hi \<and> hi \<in> set ts \<and> list_all (\<lambda>t. t \<le> hi) ts"
  using foldl_max_ge foldl_max_mem by (cases ts) auto

lemma sum_list_lower: "list_all (\<lambda>t. (lo::real) \<le> t) ts \<Longrightarrow> lo * real (length ts) \<le> sum_list ts"
  by (induction ts) (auto simp add: algebra_simps)

lemma sum_list_upper: "list_all (\<lambda>t. t \<le> (hi::real)) ts \<Longrightarrow> sum_list ts \<le> hi * real (length ts)"
  by (induction ts) (auto simp add: algebra_simps)

lemma mean_between:
  assumes "ts \<noteq> []" and "list_all (\<lambda>t. lo \<le> t) ts" and "list_all (\<lambda>t. t \<le> hi) ts"
  shows "\<exists>a. mean ts = Inr a \<and> lo \<le> a \<and> a \<le> hi"
proof -
  from assms(1) have n: "0 < real (length ts)" by simp
  have "lo \<le> sum_list ts / real (length ts)"
    using sum_list_lower[OF assms(2)] n by (simp add: pos_le_divide_eq)
  moreover have "sum_list ts / real (length ts) \<le> hi"
    using sum_list_upper[OF assms(3)] n by (simp add: pos_divide_le_eq)
  ultimately show ?thesis using assms(1) by (simp add: mean_def)
qed

lemma median_between:
  assumes "ts \<noteq> []" and "list_all (\<lambda>t. lo \<le> t) ts" and "list_all (\<lambda>t. t \<le> hi) ts"
  shows "\<exists>m. median ts = Inr m \<and> lo \<le> m \<and> m \<le> hi"
proof -
  define data where "data = sort ts"
  define n where "n = length data"
  have n: "0 < n" using assms(1) by (simp add: n_def data_def)
  have el: "lo \<le> data ! k \<and> data ! k \<le> hi" if "k < n" for k
  proof -
    from that have "data ! k \<in> set ts"
      using nth_mem[of k data] by (simp add: n_def data_def)
    with assms(2) assms(3) show ?thesis by (simp add: list_all_iff)
  qed
  have md: "median ts =
      (if n mod 2 = 1 then Inr (data ! (n div 2))
       else Inr ((data ! (n div 2 - 1) + data ! (n div 2)) / 2))"
  proof -
    have "sort ts \<noteq> []"
      using assms(1) by (metis length_0_conv length_sort)
    then show ?thesis
      using assms(1) by (simp add: median_def Let_def data_def n_def)
  qed
  show ?thesis
  proof (cases "n mod 2 = 1")
    case True
    have "n div 2 < n" using n by simp
    from el[OF this] True show ?thesis
      by (simp add: md)
  next
    case False
    have a: "n div 2 - 1 < n" and b: "n div 2 < n" using n by simp_all
    define x where "x = data ! (n div 2 - 1)"
    define y where "y = data ! (n div 2)"
    have xy: "lo \<le> x" "x \<le> hi" "lo \<le> y" "y \<le> hi"
      using el[OF a] el[OF b] by (simp_all add: x_def y_def)
    have "median ts = Inr ((x + y) / 2)"
      using False by (simp add: md x_def y_def)
    moreover have "lo \<le> (x + y) / 2"
      using xy by (simp add: field_simps)
    moreover have "(x + y) / 2 \<le> hi"
      using xy by (simp add: field_simps)
    ultimately show ?thesis by blast
  qed
qed

text \<open>
  Claim C8. For two or more samples \<open>print_statistics\<close> prints the label, the count
  and the five statistics, and returns. The minimum and the maximum printed are samples
  that bound every sample; the median and the mean printed lie between them.
\<close>

theorem printed_statistics_are_ordered:
  assumes "2 \<le> length ts"
  shows "\<exists>a m lo hi s.
           print_statistics ts language =
             ([StatsHeader language, SuccessfulRuns (length ts), AverageTime a, MedianTime m,
               MinTime lo, MaxTime hi, StdDeviation s], Inr ()) \<and>
           mean ts = Inr a \<and> median ts = Inr m \<and> py_min ts = Inr lo \<and> py_max ts = Inr hi \<and>
           lo \<in> set ts \<and> hi \<in> set ts \<and> list_all (\<lambda>t. lo \<le> t \<and> t \<le> hi) ts \<and>
           lo \<le> m \<and> m \<le> hi \<and> lo \<le> a \<and> a \<le> hi"
proof -
  from assms have ne: "ts \<noteq> []" by auto
  from py_min_least[OF ne] obtain lo where lo: "py_min ts = Inr lo" "lo \<in> set ts"
    and lob: "list_all (\<lambda>t. lo \<le> t) ts" by blast
  from py_max_greatest[OF ne] obtain hi where hi: "py_max ts = Inr hi" "hi \<in> set ts"
    and hib: "list_all (\<lambda>t. t \<le> hi) ts" by blast
  from mean_between[OF ne lob hib] obtain a where a: "mean ts = Inr a" "lo \<le> a" "a \<le> hi"
    by blast
  from median_between[OF ne lob hib] obtain m where m: "median ts = Inr m" "lo \<le> m" "m \<le> hi"
    by blast
  from assms obtain s where s: "stdev ts = Inr s"
    by (simp add: stdev_def Let_def)
  have p: "print_statistics ts language =
             ([StatsHeader language, SuccessfulRuns (length ts), AverageTime a, MedianTime m,
               MinTime lo, MaxTime hi, StdDeviation s], Inr ())"
    using ne assms
    by (simp add: print_statistics_def print_value_def io_bind_def io_print_def io_lift_def
          io_return_def a(1) m(1) lo(1) hi(1) s)
  have both: "list_all (\<lambda>t. lo \<le> t \<and> t \<le> hi) ts"
    using lob hib by (simp add: list_all_iff)
  from p a m lo hi both show ?thesis by blast
qed

text \<open>The samples 3, 1 and 2: mean 2, median 2, minimum 1, maximum 3, deviation 1.\<close>

theorem printed_statistics_are_ordered_witness:
  "2 \<le> length [3, 1, 2 :: real] \<and>
   print_statistics [3, 1, 2] ''Java'' =
     ([StatsHeader ''Java'', SuccessfulRuns 3, AverageTime 2, MedianTime 2, MinTime 1,
       MaxTime 3, StdDeviation 1], Inr ()) \<and>
   (\<exists>a m lo hi s.
      print_statistics [3, 1, 2] ''Java'' =
        ([StatsHeader ''Java'', SuccessfulRuns (length [3, 1, 2 :: real]), AverageTime a,
          MedianTime m, MinTime lo, MaxTime hi, StdDeviation s], Inr ()) \<and>
      lo \<le> m \<and> m \<le> hi \<and> lo \<le> a \<and> a \<le> hi)"
proof -
  have h: "2 \<le> length [3, 1, 2 :: real]" by simp
  have v: "print_statistics [3, 1, 2] ''Java'' =
     ([StatsHeader ''Java'', SuccessfulRuns 3, AverageTime 2, MedianTime 2, MinTime 1,
       MaxTime 3, StdDeviation 1], Inr ())"
    by (simp add: print_statistics_def print_value_def io_bind_def io_print_def io_lift_def
          io_return_def mean_def median_def stdev_def Let_def power2_eq_square)
  from printed_statistics_are_ordered[OF h, of "''Java''"]
  have "\<exists>a m lo hi s.
      print_statistics [3, 1, 2] ''Java'' =
        ([StatsHeader ''Java'', SuccessfulRuns (length [3, 1, 2 :: real]), AverageTime a,
          MedianTime m, MinTime lo, MaxTime hi, StdDeviation s], Inr ()) \<and>
      lo \<le> m \<and> m \<le> hi \<and> lo \<le> a \<and> a \<le> hi"
    by blast
  with h v show ?thesis by blast
qed

section \<open>The comparison and the final report on concrete outputs\<close>

lemmas io_defs = io_bind_def io_print_def io_lift_def io_return_def print_value_def

lemma findall_half_precision:
  "findall ''F-Measure: 0.6000, Precision: 0.5000, Recall: 0.4000'' =
     [''0.6000'', ''0.5000'', ''0.4000'']"
  by code_simp

lemma step_half_precision:
  "step st ''F-Measure: 0.6000, Precision: 0.5000, Recall: 0.4000'' =
     Inr (st\<lparr>results := results st @ [make_result st [''0.6000'', ''0.5000'', ''0.4000'']],
             current_candidate := None, current_reference := None\<rparr>)"
  by (simp add: step_def line_shape_defs findall_half_precision del: findall.simps)

lemma java_one_example:
  "extract_results (''--- Level 1: Basic Text ---'' @ [CHR 0x0A] @ ''Example 1:'' @ [CHR 0x0A] @
       ''F-Measure: 0.6000, Precision: 1.0000, Recall: 0.4000'') =
   Inr [\<lparr>example_num = Some 1, level = Some 1, level_name = Some ''Basic Text ---'',
         candidate = None, reference = None,
         f_measure = 0.6, precision = 1, recall = 0.4\<rparr>]"
proof -
  have lines: "split_lines (str_strip (''--- Level 1: Basic Text ---'' @ [CHR 0x0A] @
       ''Example 1:'' @ [CHR 0x0A] @
       ''F-Measure: 0.6000, Precision: 1.0000, Recall: 0.4000'')) =
     [''--- Level 1: Basic Text ---'', ''Example 1:'',
      ''F-Measure: 0.6000, Precision: 1.0000, Recall: 0.4000'']"
    by (simp add: split_lines_def str_strip_def isspace_def)
  show ?thesis
    unfolding extract_results_def lines
    by (simp add: step_level_1 step_example_1 step_f_line initial_state_def make_result_def
          py_float_06 py_float_10 py_float_04)
qed

lemma rust_one_example:
  "extract_results (''--- Level 1: Basic Text ---'' @ [CHR 0x0A] @ ''Example 1:'' @ [CHR 0x0A] @
       ''F-Measure: 0.6000, Precision: 0.5000, Recall: 0.4000'') =
   Inr [\<lparr>example_num = Some 1, level = Some 1, level_name = Some ''Basic Text ---'',
         candidate = None, reference = None,
         f_measure = 0.6, precision = 0.5, recall = 0.4\<rparr>]"
proof -
  have lines: "split_lines (str_strip (''--- Level 1: Basic Text ---'' @ [CHR 0x0A] @
       ''Example 1:'' @ [CHR 0x0A] @
       ''F-Measure: 0.6000, Precision: 0.5000, Recall: 0.4000'')) =
     [''--- Level 1: Basic Text ---'', ''Example 1:'',
      ''F-Measure: 0.6000, Precision: 0.5000, Recall: 0.4000'']"
    by (simp add: split_lines_def str_strip_def isspace_def)
  show ?thesis
    unfolding extract_results_def lines
    by (simp add: step_level_1 step_example_1 step_half_precision initial_state_def
          make_result_def py_float_06 py_float_05 py_float_04)
qed

lemma compare_one_example:
  "compare_results
     (''--- Level 1: Basic Text ---'' @ [CHR 0x0A] @ ''Example 1:'' @ [CHR 0x0A] @
       ''F-Measure: 0.6000, Precision: 1.0000, Recall: 0.4000'')
     (''--- Level 1: Basic Text ---'' @ [CHR 0x0A] @ ''Example 1:'' @ [CHR 0x0A] @
       ''F-Measure: 0.6000, Precision: 0.5000, Recall: 0.4000'') =
   ([ComparingHeader, AccuracyHeader, LevelHeader 1 (Some ''Basic Text ---''), ExampleHeader 1,
     JavaScores 0.6 1 0.4, RustScores 0.6 0.5 0.4, DifferencesLine 0 0.5 0],
    Inr ([\<lparr>example_num = Some 1, level = Some 1, level_name = Some ''Basic Text ---'',
           candidate = None, reference = None,
           f_measure = 0.6, precision = 1, recall = 0.4\<rparr>],
         [\<lparr>example_num = Some 1, level = Some 1, level_name = Some ''Basic Text ---'',
           candidate = None, reference = None,
           f_measure = 0.6, precision = 0.5, recall = 0.4\<rparr>]))"
  unfolding compare_results_def java_one_example rust_one_example
  by (simp add: io_defs results_match_def snippet_lines_def)

lemma summary_one_example:
  "scenario_summary
     [\<lparr>example_num = Some 1, level = Some 1, level_name = Some ''Basic Text ---'',
       candidate = None, reference = None,
       f_measure = 0.6, precision = 1, recall = 0.4\<rparr>]
     [\<lparr>example_num = Some 1, level = Some 1, level_name = Some ''Basic Text ---'',
       candidate = None, reference = None,
       f_measure = 0.6, precision = 0.5, recall = 0.4\<rparr>] =
   ([ScenarioSummaryHeader, LevelSummaryHeader (Some 1) (LevelName (Some ''Basic Text ---'')),
     LevelExamples 1, LevelAverageF 0.6, LevelMatchRate 100 1 1, OverallLine 1 1 100,
     FStatsHeader, FAverage 0.6, FMedian 0.6, FMin 0.6, FMax 0.6], Inr ())"
  by (simp add: scenario_summary_def build_level_stats_def add_pair_def stats_of_def
        f_measure_match_def add_name_def sorted_keys_def level_report_def total_matched_def
        total_examples_def overall_match_rate_def mean_def median_def io_defs Let_def
        List.map_filter_simps)

text \<open>
  Claim C2. One example, whose two records agree on the F-measure and on the recall
  and differ by 0.5 on the precision; both programs compiled and no timing was
  obtained. The comparison prints the differences for the pair, as the three-field test
  of line 222 requires. The summary of the final report then counts the same pair as
  matched, in its level (match rate 100, 1 of 1) and overall (1 of 1 perfectly matched):
  the count of lines 314-317 looks at the F-measure alone.
\<close>

theorem summary_counts_a_differing_pair_as_matched:
  "main \<lparr>compile_java_ok = True, compile_rust_ok = True, java_times = [], rust_times = [],
         java_stdout = ''--- Level 1: Basic Text ---'' @ [CHR 0x0A] @ ''Example 1:'' @
           [CHR 0x0A] @ ''F-Measure: 0.6000, Precision: 1.0000, Recall: 0.4000'',
         rust_stdout = ''--- Level 1: Basic Text ---'' @ [CHR 0x0A] @ ''Example 1:'' @
           [CHR 0x0A] @ ''F-Measure: 0.6000, Precision: 0.5000, Recall: 0.4000''\<rparr> =
   ([Title, NoValidTimes ''Java'', NoValidTimes ''Rust'',
     ComparingHeader, AccuracyHeader, LevelHeader 1 (Some ''Basic Text ---''), ExampleHeader 1,
     JavaScores 0.6 1 0.4, RustScores 0.6 0.5 0.4, DifferencesLine 0 0.5 0,
     FinalReportHeader,
     ScenarioSummaryHeader, LevelSummaryHeader (Some 1) (LevelName (Some ''Basic Text ---'')),
     LevelExamples 1, LevelAverageF 0.6, LevelMatchRate 100 1 1, OverallLine 1 1 100,
     FStatsHeader, FAverage 0.6, FMedian 0.6, FMin 0.6, FMax 0.6,
     Notes], Inr ())"
proof -
  define jr where "jr =
    \<lparr>example_num = Some 1, level = Some 1, level_name = Some ''Basic Text ---'',
     candidate = None, reference = None, f_measure = 0.6, precision = 1, recall = 0.4\<rparr>"
  define rr where "rr =
    \<lparr>example_num = Some 1, level = Some 1, level_name = Some ''Basic Text ---'',
     candidate = None, reference = None, f_measure = 0.6, precision = 0.5, recall = 0.4\<rparr>"
  define J where "J = ''--- Level 1: Basic Text ---'' @ [CHR 0x0A] @ ''Example 1:'' @
           [CHR 0x0A] @ ''F-Measure: 0.6000, Precision: 1.0000, Recall: 0.4000''"
  define R where "R = ''--- Level 1: Basic Text ---'' @ [CHR 0x0A] @ ''Example 1:'' @
           [CHR 0x0A] @ ''F-Measure: 0.6000, Precision: 0.5000, Recall: 0.4000''"
  have c: "compare_results J R =
   ([ComparingHeader, AccuracyHeader, LevelHeader 1 (Some ''Basic Text ---''), ExampleHeader 1,
     JavaScores 0.6 1 0.4, RustScores 0.6 0.5 0.4, DifferencesLine 0 0.5 0],
    Inr ([jr], [rr]))"
    unfolding jr_def rr_def J_def R_def by (rule compare_one_example)
  have s: "scenario_summary [jr] [rr] =
   ([ScenarioSummaryHeader, LevelSummaryHeader (Some 1) (LevelName (Some ''Basic Text ---'')),
     LevelExamples 1, LevelAverageF 0.6, LevelMatchRate 100 1 1, OverallLine 1 1 100,
     FStatsHeader, FAverage 0.6, FMedian 0.6, FMin 0.6, FMax 0.6], Inr ())"
    unfolding jr_def rr_def by (rule summary_one_example)
  show ?thesis
    unfolding J_def[symmetric] R_def[symmetric] main_def
    by (simp add: print_statistics_def performance_summary_def c s io_defs)
qed

section \<open>Exchanging the two outputs\<close>

lemma results_match_commute: "results_match a b = results_match b a"
  by (simp add: results_match_def abs_minus_commute)

lemma no_verdict_in_snippet_lines:
  "filter is_verdict_line (snippet_lines CandidateLine s) = []"
  "filter is_verdict_line (snippet_lines ReferenceLine s) = []"
  by (simp_all add: snippet_lines_def is_verdict_line_def split: option.splits)

lemma compare_loop_verdicts_commute:
  "filter is_verdict_line (compare_loop l i (zip a b)) =
   filter is_verdict_line (compare_loop l' i' (zip b a))"
proof (induction a arbitrary: b l l' i i')
  case Nil
  show ?case by simp
next
  case (Cons x xs)
  show ?case
  proof (cases b)
    case Nil
    then show ?thesis by simp
  next
    case (Cons y ys)
    have v: "(if results_match x y then MatchLine
              else DifferencesLine \<bar>f_measure x - f_measure y\<bar>
                     \<bar>precision x - precision y\<bar> \<bar>recall x - recall y\<bar>) =
             (if results_match y x then MatchLine
              else DifferencesLine \<bar>f_measure y - f_measure x\<bar>
                     \<bar>precision y - precision x\<bar> \<bar>recall y - recall x\<bar>)"
      by (simp add: results_match_commute[of x y] abs_minus_commute)
    have "filter is_verdict_line (compare_loop l i ((x, y) # zip xs ys)) =
          (if results_match x y then MatchLine
           else DifferencesLine \<bar>f_measure x - f_measure y\<bar>
                  \<bar>precision x - precision y\<bar> \<bar>recall x - recall y\<bar>) #
          filter is_verdict_line
            (compare_loop (if level x \<noteq> l \<and> level x \<noteq> None then level x else l)
               (Suc i) (zip xs ys))"
      by (simp add: Let_def no_verdict_in_snippet_lines is_verdict_line_def
            split: option.splits)
    moreover have "filter is_verdict_line (compare_loop l' i' ((y, x) # zip ys xs)) =
          (if results_match y x then MatchLine
           else DifferencesLine \<bar>f_measure y - f_measure x\<bar>
                  \<bar>precision y - precision x\<bar> \<bar>recall y - recall x\<bar>) #
          filter is_verdict_line
            (compare_loop (if level y \<noteq> l' \<and> level y \<noteq> None then level y else l')
               (Suc i') (zip ys xs))"
      by (simp add: Let_def no_verdict_in_snippet_lines is_verdict_line_def
            split: option.splits)
    ultimately show ?thesis
      using Cons.IH[of "if level x \<noteq> l \<and> level x \<noteq> None then level x else l" "Suc i" ys
              "if level y \<noteq> l' \<and> level y \<noteq> None then level y else l'" "Suc i'"]
      by (simp only: Cons zip_Cons_Cons v)
  qed
qed

text \<open>
  The verdicts that \<open>compare_results\<close> prints, one for each pair, are the same
  lines when the two outputs are exchanged, for any two outputs.
\<close>

lemma compare_results_verdicts_commute:
  "filter is_verdict_line (fst (compare_results a b)) =
   filter is_verdict_line (fst (compare_results b a))"
proof (cases "extract_results a")
  case (Inl e)
  then show ?thesis
    by (cases "extract_results b")
       (simp_all add: compare_results_def io_defs is_verdict_line_def)
next
  case ra: (Inr ra)
  show ?thesis
  proof (cases "extract_results b")
    case (Inl e)
    with ra show ?thesis
      by (simp add: compare_results_def io_defs is_verdict_line_def)
  next
    case (Inr rb)
    with ra show ?thesis
      using compare_loop_verdicts_commute[of None 1 ra rb None 1]
      by (simp add: compare_results_def io_defs is_verdict_line_def)
  qed
qed

text \<open>
  The totals of lines 338-339 count the pairs and the pairs that agree on the F-measure,
  whatever the levels; so the value of the overall match rate is the same for the
  exchanged sequences.
\<close>

lemma sum_dict_set:
  fixes h :: "level_stat \<Rightarrow> nat"
  assumes "h \<lparr>count = 0, f_scores = [], matched = 0\<rparr> = 0"
  shows "sum_list (map (\<lambda>kv. h (snd kv)) (dict_set k v d)) + h (stats_of d k) =
         sum_list (map (\<lambda>kv. h (snd kv)) d) + h v"
  using assms by (induction d) (auto simp add: stats_of_def)

lemma total_matched_add_pair:
  "total_matched (add_pair d p) =
     total_matched d + (if f_measure_match (fst p) (snd p) then 1 else 0)"
  using sum_dict_set[of matched "level (fst p)"
      "(stats_of d (level (fst p)))\<lparr>count := count (stats_of d (level (fst p))) + 1,
         f_scores := f_scores (stats_of d (level (fst p))) @ [f_measure (fst p)],
         matched := (if f_measure_match (fst p) (snd p)
                     then matched (stats_of d (level (fst p))) + 1
                     else matched (stats_of d (level (fst p))))\<rparr>" d]
  by (simp add: total_matched_def add_pair_def Let_def split: if_splits)

lemma total_examples_add_pair: "total_examples (add_pair d p) = total_examples d + 1"
  using sum_dict_set[of count "level (fst p)"
      "(stats_of d (level (fst p)))\<lparr>count := count (stats_of d (level (fst p))) + 1,
         f_scores := f_scores (stats_of d (level (fst p))) @ [f_measure (fst p)],
         matched := (if f_measure_match (fst p) (snd p)
                     then matched (stats_of d (level (fst p))) + 1
                     else matched (stats_of d (level (fst p))))\<rparr>" d]
  by (simp add: total_examples_def add_pair_def Let_def)

lemma total_matched_foldl:
  "total_matched (foldl add_pair d ps) =
     total_matched d + length (filter (\<lambda>p. f_measure_match (fst p) (snd p)) ps)"
  by (induction ps arbitrary: d) (simp_all add: total_matched_add_pair)

lemma total_examples_foldl:
  "total_examples (foldl add_pair d ps) = total_examples d + length ps"
  by (induction ps arbitrary: d) (simp_all add: total_examples_add_pair)

lemma matching_pairs_commute:
  "length (filter (\<lambda>p. f_measure_match (fst p) (snd p)) (zip a b)) =
   length (filter (\<lambda>p. f_measure_match (fst p) (snd p)) (zip b a))"
proof (induction a arbitrary: b)
  case Nil
  show ?case by simp
next
  case (Cons x xs)
  show ?case
  proof (cases b)
    case Nil
    then show ?thesis by simp
  next
    case (Cons y ys)
    have "f_measure_match x y = f_measure_match y x"
      by (simp add: f_measure_match_def abs_minus_commute)
    with Cons Cons.IH[of ys] show ?thesis by simp
  qed
qed

lemma overall_match_rate_commute:
  "overall_match_rate (build_level_stats a b) = overall_match_rate (build_level_stats b a)"
proof -
  have "length (zip a b) = length (zip b a)" by (simp add: min.commute)
  then show ?thesis
    by (simp add: overall_match_rate_def build_level_stats_def total_matched_foldl
          total_examples_foldl matching_pairs_commute[of a b])
qed

lemma level_after_result_records:
  "extract_results (''Result: 0.5000, 0.2500, 0.7500'' @ [CHR 0x0A] @
       ''--- Level 1: Basic Text ---'' @ [CHR 0x0A] @ ''Result: 0.5000, 0.2500, 0.7500'') =
   Inr [\<lparr>example_num = None, level = None, level_name = None,
         candidate = None, reference = None,
         f_measure = 0.5, precision = 0.25, recall = 0.75\<rparr>,
        \<lparr>example_num = None, level = Some 1, level_name = Some ''Basic Text ---'',
         candidate = None, reference = None,
         f_measure = 0.5, precision = 0.25, recall = 0.75\<rparr>]"
proof -
  have lines: "split_lines (str_strip (''Result: 0.5000, 0.2500, 0.7500'' @ [CHR 0x0A] @
       ''--- Level 1: Basic Text ---'' @ [CHR 0x0A] @ ''Result: 0.5000, 0.2500, 0.7500'')) =
     [''Result: 0.5000, 0.2500, 0.7500'', ''--- Level 1: Basic Text ---'',
      ''Result: 0.5000, 0.2500, 0.7500'']"
    by (simp add: split_lines_def str_strip_def isspace_def)
  show ?thesis
    unfolding extract_results_def lines
    by (simp add: step_level_1 step_result_line initial_state_def make_result_def
          py_float_05 py_float_025 py_float_075)
qed

lemma level_first_records:
  "extract_results (''--- Level 1: Basic Text ---'' @ [CHR 0x0A] @
       ''Result: 0.5000, 0.2500, 0.7500'' @ [CHR 0x0A] @ ''Result: 0.5000, 0.2500, 0.7500'') =
   Inr [\<lparr>example_num = None, level = Some 1, level_name = Some ''Basic Text ---'',
         candidate = None, reference = None,
         f_measure = 0.5, precision = 0.25, recall = 0.75\<rparr>,
        \<lparr>example_num = None, level = Some 1, level_name = Some ''Basic Text ---'',
         candidate = None, reference = None,
         f_measure = 0.5, precision = 0.25, recall = 0.75\<rparr>]"
proof -
  have lines: "split_lines (str_strip (''--- Level 1: Basic Text ---'' @ [CHR 0x0A] @
       ''Result: 0.5000, 0.2500, 0.7500'' @ [CHR 0x0A] @ ''Result: 0.5000, 0.2500, 0.7500'')) =
     [''--- Level 1: Basic Text ---'', ''Result: 0.5000, 0.2500, 0.7500'',
      ''Result: 0.5000, 0.2500, 0.7500'']"
    by (simp add: split_lines_def str_strip_def isspace_def)
  show ?thesis
    unfolding extract_results_def lines
    by (simp add: step_level_1 step_result_line initial_state_def make_result_def
          py_float_05 py_float_025 py_float_075)
qed

lemma compare_unlevelled_first:
  "compare_results
     (''Result: 0.5000, 0.2500, 0.7500'' @ [CHR 0x0A] @
       ''--- Level 1: Basic Text ---'' @ [CHR 0x0A] @ ''Result: 0.5000, 0.2500, 0.7500'')
     (''--- Level 1: Basic Text ---'' @ [CHR 0x0A] @
       ''Result: 0.5000, 0.2500, 0.7500'' @ [CHR 0x0A] @ ''Result: 0.5000, 0.2500, 0.7500'') =
   ([ComparingHeader, AccuracyHeader,
     ExampleHeader 1, JavaScores 0.5 0.25 0.75, RustScores 0.5 0.25 0.75, MatchLine,
     LevelHeader 1 (Some ''Basic Text ---''),
     ExampleHeader 2, JavaScores 0.5 0.25 0.75, RustScores 0.5 0.25 0.75, MatchLine],
    Inr ([\<lparr>example_num = None, level = None, level_name = None,
           candidate = None, reference = None,
           f_measure = 0.5, precision = 0.25, recall = 0.75\<rparr>,
          \<lparr>example_num = None, level = Some 1, level_name = Some ''Basic Text ---'',
           candidate = None, reference = None,
           f_measure = 0.5, precision = 0.25, recall = 0.75\<rparr>],
         [\<lparr>example_num = None, level = Some 1, level_name = Some ''Basic Text ---'',
           candidate = None, reference = None,
           f_measure = 0.5, precision = 0.25, recall = 0.75\<rparr>,
          \<lparr>example_num = None, level = Some 1, level_name = Some ''Basic Text ---'',
           candidate = None, reference = None,
           f_measure = 0.5, precision = 0.25, recall = 0.75\<rparr>]))"
  unfolding compare_results_def level_after_result_records level_first_records
  by (simp add: io_defs results_match_def snippet_lines_def)

lemma compare_levelled_first:
  "compare_results
     (''--- Level 1: Basic Text ---'' @ [CHR 0x0A] @
       ''Result: 0.5000, 0.2500, 0.7500'' @ [CHR 0x0A] @ ''Result: 0.5000, 0.2500, 0.7500'')
     (''Result: 0.5000, 0.2500, 0.7500'' @ [CHR 0x0A] @
       ''--- Level 1: Basic Text ---'' @ [CHR 0x0A] @ ''Result: 0.5000, 0.2500, 0.7500'') =
   ([ComparingHeader, AccuracyHeader,
     LevelHeader 1 (Some ''Basic Text ---''),
     ExampleHeader 1, JavaScores 0.5 0.25 0.75, RustScores 0.5 0.25 0.75, MatchLine,
     ExampleHeader 2, JavaScores 0.5 0.25 0.75, RustScores 0.5 0.25 0.75, MatchLine],
    Inr ([\<lparr>example_num = None, level = Some 1, level_name = Some ''Basic Text ---'',
           candidate = None, reference = None,
           f_measure = 0.5, precision = 0.25, recall = 0.75\<rparr>,
          \<lparr>example_num = None, level = Some 1, level_name = Some ''Basic Text ---'',
           candidate = None, reference = None,
           f_measure = 0.5, precision = 0.25, recall = 0.75\<rparr>],
         [\<lparr>example_num = None, level = None, level_name = None,
           candidate = None, reference = None,
           f_measure = 0.5, precision = 0.25, recall = 0.75\<rparr>,
          \<lparr>example_num = None, level = Some 1, level_name = Some ''Basic Text ---'',
           candidate = None, reference = None,
           f_measure = 0.5, precision = 0.25, recall = 0.75\<rparr>]))"
  unfolding compare_results_def level_after_result_records level_first_records
  by (simp add: io_defs results_match_def snippet_lines_def)

lemma summary_unlevelled_first:
  "scenario_summary
     [\<lparr>example_num = None, level = None, level_name = None,
       candidate = None, reference = None,
       f_measure = 0.5, precision = 0.25, recall = 0.75\<rparr>,
      \<lparr>example_num = None, level = Some 1, level_name = Some ''Basic Text ---'',
       candidate = None, reference = None,
       f_measure = 0.5, precision = 0.25, recall = 0.75\<rparr>]
     [\<lparr>example_num = None, level = Some 1, level_name = Some ''Basic Text ---'',
       candidate = None, reference = None,
       f_measure = 0.5, precision = 0.25, recall = 0.75\<rparr>,
      \<lparr>example_num = None, level = Some 1, level_name = Some ''Basic Text ---'',
       candidate = None, reference = None,
       f_measure = 0.5, precision = 0.25, recall = 0.75\<rparr>] =
   ([ScenarioSummaryHeader], Inl TypeError)"
  by (simp add: scenario_summary_def build_level_stats_def add_pair_def stats_of_def
        f_measure_match_def add_name_def sorted_keys_def io_defs Let_def)

lemma summary_levelled_first:
  "scenario_summary
     [\<lparr>example_num = None, level = Some 1, level_name = Some ''Basic Text ---'',
       candidate = None, reference = None,
       f_measure = 0.5, precision = 0.25, recall = 0.75\<rparr>,
      \<lparr>example_num = None, level = Some 1, level_name = Some ''Basic Text ---'',
       candidate = None, reference = None,
       f_measure = 0.5, precision = 0.25, recall = 0.75\<rparr>]
     [\<lparr>example_num = None, level = None, level_name = None,
       candidate = None, reference = None,
       f_measure = 0.5, precision = 0.25, recall = 0.75\<rparr>,
      \<lparr>example_num = None, level = Some 1, level_name = Some ''Basic Text ---'',
       candidate = None, reference = None,
       f_measure = 0.5, precision = 0.25, recall = 0.75\<rparr>] =
   ([ScenarioSummaryHeader, LevelSummaryHeader (Some 1) (LevelName (Some ''Basic Text ---'')),
     LevelExamples 2, LevelAverageF 0.5, LevelMatchRate 100 2 2, OverallLine 2 2 100,
     FStatsHeader, FAverage 0.5, FMedian 0.5, FMin 0.5, FMax 0.5], Inr ())"
  by (simp add: scenario_summary_def build_level_stats_def add_pair_def stats_of_def
        f_measure_match_def add_name_def sorted_keys_def level_report_def total_matched_def
        total_examples_def overall_match_rate_def mean_def median_def io_defs Let_def
        List.map_filter_simps)

text \<open>
  Claim C9. For any two outputs the verdicts printed pair by pair are the same in both
  orders, and so is the value of the overall match rate computed from the pairs (the
  lemmas above). What the run reports is not. Take two outputs with two records each and
  the same scores throughout; in the first the first results line stands ahead of the
  level header, so its record has no level. Both programs compiled and no timing was
  obtained. In both orders the comparison prints a match for each of the two pairs. With
  the first output as the Java output, the summary has the keys \<open>None\<close> and 1,
  \<open>sorted\<close> raises a TypeError and no overall match rate is printed; with the outputs
  exchanged the only key is 1 and the report gives 2 of 2 matched, rate 100.
\<close>

theorem exchanged_outputs_lose_the_overall_rate:
  "main \<lparr>compile_java_ok = True, compile_rust_ok = True, java_times = [], rust_times = [],
         java_stdout = ''Result: 0.5000, 0.2500, 0.7500'' @ [CHR 0x0A] @
           ''--- Level 1: Basic Text ---'' @ [CHR 0x0A] @ ''Result: 0.5000, 0.2500, 0.7500'',
         rust_stdout = ''--- Level 1: Basic Text ---'' @ [CHR 0x0A] @
           ''Result: 0.5000, 0.2500, 0.7500'' @ [CHR 0x0A] @
           ''Result: 0.5000, 0.2500, 0.7500''\<rparr> =
   ([Title, NoValidTimes ''Java'', NoValidTimes ''Rust'',
     ComparingHeader, AccuracyHeader,
     ExampleHeader 1, JavaScores 0.5 0.25 0.75, RustScores 0.5 0.25 0.75, MatchLine,
     LevelHeader 1 (Some ''Basic Text ---''),
     ExampleHeader 2, JavaScores 0.5 0.25 0.75, RustScores 0.5 0.25 0.75, MatchLine,
     FinalReportHeader, ScenarioSummaryHeader], Inl TypeError) \<and>
   main (swap_outputs
        \<lparr>compile_java_ok = True, compile_rust_ok = True, java_times = [], rust_times = [],
         java_stdout = ''Result: 0.5000, 0.2500, 0.7500'' @ [CHR 0x0A] @
           ''--- Level 1: Basic Text ---'' @ [CHR 0x0A] @ ''Result: 0.5000, 0.2500, 0.7500'',
         rust_stdout = ''--- Level 1: Basic Text ---'' @ [CHR 0x0A] @
           ''Result: 0.5000, 0.2500, 0.7500'' @ [CHR 0x0A] @
           ''Result: 0.5000, 0.2500, 0.7500''\<rparr>) =
   ([Title, NoValidTimes ''Java'', NoValidTimes ''Rust'',
     ComparingHeader, AccuracyHeader,
     LevelHeader 1 (Some ''Basic Text ---''),
     ExampleHeader 1, JavaScores 0.5 0.25 0.75, RustScores 0.5 0.25 0.75, MatchLine,
     ExampleHeader 2, JavaScores 0.5 0.25 0.75, RustScores 0.5 0.25 0.75, MatchLine,
     FinalReportHeader,
     ScenarioSummaryHeader, LevelSummaryHeader (Some 1) (LevelName (Some ''Basic Text ---'')),
     LevelExamples 2, LevelAverageF 0.5, LevelMatchRate 100 2 2, OverallLine 2 2 100,
     FStatsHeader, FAverage 0.5, FMedian 0.5, FMin 0.5, FMax 0.5,
     Notes], Inr ())"
proof -
  define a0 where "a0 =
    \<lparr>example_num = None, level = None, level_name = None,
     candidate = None, reference = None, f_measure = 0.5, precision = 0.25, recall = 0.75\<rparr>"
  define a1 where "a1 =
    \<lparr>example_num = None, level = Some 1, level_name = Some ''Basic Text ---'',
     candidate = None, reference = None, f_measure = 0.5, precision = 0.25, recall = 0.75\<rparr>"
  define J where "J = ''Result: 0.5000, 0.2500, 0.7500'' @ [CHR 0x0A] @
           ''--- Level 1: Basic Text ---'' @ [CHR 0x0A] @ ''Result: 0.5000, 0.2500, 0.7500''"
  define R where "R = ''--- Level 1: Basic Text ---'' @ [CHR 0x0A] @
           ''Result: 0.5000, 0.2500, 0.7500'' @ [CHR 0x0A] @
           ''Result: 0.5000, 0.2500, 0.7500''"
  have c1: "compare_results J R =
   ([ComparingHeader, AccuracyHeader,
     ExampleHeader 1, JavaScores 0.5 0.25 0.75, RustScores 0.5 0.25 0.75, MatchLine,
     LevelHeader 1 (Some ''Basic Text ---''),
     ExampleHeader 2, JavaScores 0.5 0.25 0.75, RustScores 0.5 0.25 0.75, MatchLine],
    Inr ([a0, a1], [a1, a1]))"
    unfolding a0_def a1_def J_def R_def by (rule compare_unlevelled_first)
  have c2: "compare_results R J =
   ([ComparingHeader, AccuracyHeader,
     LevelHeader 1 (Some ''Basic Text ---''),
     ExampleHeader 1, JavaScores 0.5 0.25 0.75, RustScores 0.5 0.25 0.75, MatchLine,
     ExampleHeader 2, JavaScores 0.5 0.25 0.75, RustScores 0.5 0.25 0.75, MatchLine],
    Inr ([a1, a1], [a0, a1]))"
    unfolding a0_def a1_def J_def R_def by (rule compare_levelled_first)
  have s1: "scenario_summary [a0, a1] [a1, a1] = ([ScenarioSummaryHeader], Inl TypeError)"
    unfolding a0_def a1_def by (rule summary_unlevelled_first)
  have s2: "scenario_summary [a1, a1] [a0, a1] =
   ([ScenarioSummaryHeader, LevelSummaryHeader (Some 1) (LevelName (Some ''Basic Text ---'')),
     LevelExamples 2, LevelAverageF 0.5, LevelMatchRate 100 2 2, OverallLine 2 2 100,
     FStatsHeader, FAverage 0.5, FMedian 0.5, FMin 0.5, FMax 0.5], Inr ())"
    unfolding a0_def a1_def by (rule summary_levelled_first)
  show ?thesis
    unfolding J_def[symmetric] R_def[symmetric] main_def swap_outputs_def
    by (simp add: print_statistics_def performance_summary_def c1 c2 s1 s2 io_defs)
qed

section \<open>Sequences of different lengths\<close>

lemma median_value: "ts \<noteq> [] \<Longrightarrow> \<exists>m. median ts = Inr m"
proof -
  assume "ts \<noteq> []"
  then have ne: "sort ts \<noteq> []" by (metis length_0_conv length_sort)
  show ?thesis
  proof (cases "length (sort ts) mod 2 = 1")
    case True
    with ne have "median ts = Inr (sort ts ! (length (sort ts) div 2))"
      by (simp add: median_def Let_def)
    then show ?thesis ..
  next
    case False
    with ne have "median ts =
        Inr ((sort ts ! (length (sort ts) div 2 - 1) + sort ts ! (length (sort ts) div 2)) / 2)"
      by (simp add: median_def Let_def)
    then show ?thesis ..
  qed
qed

lemma print_statistics_returns: "snd (print_statistics ts language) = Inr ()"
proof (cases "ts = []")
  case True
  then show ?thesis by (simp add: print_statistics_def io_print_def)
next
  case False
  from False obtain a where a: "mean ts = Inr a" by (simp add: mean_def)
  from median_value[OF False] obtain m where m: "median ts = Inr m" ..
  from False obtain lo where lo: "py_min ts = Inr lo" by (cases ts) auto
  from False obtain hi where hi: "py_max ts = Inr hi" by (cases ts) auto
  show ?thesis
  proof (cases "1 < length ts")
    case True
    then obtain s where s: "stdev ts = Inr s" by (simp add: stdev_def Let_def)
    from False True show ?thesis
      by (simp add: print_statistics_def io_defs a m lo hi s)
  next
    case short: False
    from False short show ?thesis
      by (simp add: print_statistics_def io_defs a m lo hi)
  qed
qed

lemma extract_results_empty: "extract_results [] = Inr []"
  by (simp add: extract_results_def split_lines_def str_strip_def step_def line_shape_defs
        initial_state_def)

text \<open>
  Claim C5, as amended. When both programs compiled and the two extracted sequences
  differ in length, \<open>compare_results\<close> prints its two headers and nothing else, and
  returns two empty sequences: no pair is compared and no mismatch is reported. The run
  as a whole prints the title, the statistics of the two series of timings, the two
  headers of the comparison, the header of the final report and the performance summary,
  then the notes unless the performance summary raised; there is no scenario summary.
\<close>

theorem differing_lengths_skip_the_comparison:
  assumes "compile_java_ok env" and "compile_rust_ok env"
    and "extract_results (java_stdout env) = Inr ja"
    and "extract_results (rust_stdout env) = Inr ru"
    and "length ja \<noteq> length ru"
  shows "compare_results (java_stdout env) (rust_stdout env) =
           ([ComparingHeader, AccuracyHeader], Inr ([], [])) \<and>
         fst (main env) =
           Title # fst (print_statistics (java_times env) ''Java'') @
           fst (print_statistics (rust_times env) ''Rust'') @
           [ComparingHeader, AccuracyHeader, FinalReportHeader] @
           fst (performance_summary (java_times env) (rust_times env)) @
           (if isl (snd (performance_summary (java_times env) (rust_times env))) then []
            else [Notes]) \<and>
         snd (main env) = snd (performance_summary (java_times env) (rust_times env))"
proof -
  have cr: "compare_results (java_stdout env) (rust_stdout env) =
           ([ComparingHeader, AccuracyHeader], Inr ([], []))"
    using assms(5) by (simp add: compare_results_def assms(3) assms(4) io_defs)
  have ss: "scenario_summary [] [] = ([], Inr ())"
    by (simp add: scenario_summary_def io_return_def)
  have m: "fst (main env) =
           Title # fst (print_statistics (java_times env) ''Java'') @
           fst (print_statistics (rust_times env) ''Rust'') @
           [ComparingHeader, AccuracyHeader, FinalReportHeader] @
           fst (performance_summary (java_times env) (rust_times env)) @
           (if isl (snd (performance_summary (java_times env) (rust_times env))) then []
            else [Notes]) \<and>
         snd (main env) = snd (performance_summary (java_times env) (rust_times env))"
    by (cases "snd (performance_summary (java_times env) (rust_times env))")
       (simp_all add: main_def assms(1) assms(2) io_bind_def io_print_def
          print_statistics_returns cr ss)
  from cr m show ?thesis by blast
qed

lemma statistics_of_one_sample:
  "print_statistics [x] language =
     ([StatsHeader language, SuccessfulRuns 1, AverageTime x, MedianTime x, MinTime x,
       MaxTime x], Inr ())"
  by (simp add: print_statistics_def io_defs mean_def median_def Let_def)

lemma performance_of_two_samples:
  "performance_summary [2] [1] =
     ([PerformanceHeader, JavaAverage 2 2, RustAverage 1 1, RustWarmAverage 1, RustFaster 2],
      Inr ())"
  by (simp add: performance_summary_def io_defs mean_def median_def py_div_def Let_def)

text \<open>
  One timing each, one record from the Java output and none from the Rust output: the
  statistics and the performance summary are printed, the comparison prints its two
  headers only.
\<close>

theorem differing_lengths_skip_the_comparison_witness:
  "extract_results (''--- Level 1: Basic Text ---'' @ [CHR 0x0A] @ ''Example 1:'' @ [CHR 0x0A] @
       ''F-Measure: 0.6000, Precision: 1.0000, Recall: 0.4000'') =
     Inr [\<lparr>example_num = Some 1, level = Some 1, level_name = Some ''Basic Text ---'',
           candidate = None, reference = None,
           f_measure = 0.6, precision = 1, recall = 0.4\<rparr>] \<and>
   extract_results [] = Inr [] \<and>
   compare_results (''--- Level 1: Basic Text ---'' @ [CHR 0x0A] @ ''Example 1:'' @ [CHR 0x0A] @
       ''F-Measure: 0.6000, Precision: 1.0000, Recall: 0.4000'') [] =
     ([ComparingHeader, AccuracyHeader], Inr ([], [])) \<and>
   fst (main \<lparr>compile_java_ok = True, compile_rust_ok = True,
              java_times = [2], rust_times = [1],
              java_stdout = ''--- Level 1: Basic Text ---'' @ [CHR 0x0A] @ ''Example 1:'' @
                [CHR 0x0A] @ ''F-Measure: 0.6000, Precision: 1.0000, Recall: 0.4000'',
              rust_stdout = []\<rparr>) =
     [Title,
      StatsHeader ''Java'', SuccessfulRuns 1, AverageTime 2, MedianTime 2, MinTime 2, MaxTime 2,
      StatsHeader ''Rust'', SuccessfulRuns 1, AverageTime 1, MedianTime 1, MinTime 1, MaxTime 1,
      ComparingHeader, AccuracyHeader, FinalReportHeader,
      PerformanceHeader, JavaAverage 2 2, RustAverage 1 1, RustWarmAverage 1, RustFaster 2,
      Notes]"
proof -
  define J where "J = ''--- Level 1: Basic Text ---'' @ [CHR 0x0A] @ ''Example 1:'' @
           [CHR 0x0A] @ ''F-Measure: 0.6000, Precision: 1.0000, Recall: 0.4000''"
  define jr where "jr =
    \<lparr>example_num = Some 1, level = Some 1, level_name = Some ''Basic Text ---'',
     candidate = None, reference = None, f_measure = 0.6, precision = 1, recall = 0.4\<rparr>"
  define env where "env = \<lparr>compile_java_ok = True, compile_rust_ok = True,
              java_times = [2], rust_times = [1], java_stdout = J, rust_stdout = []\<rparr>"
  have h3: "extract_results (java_stdout env) = Inr [jr]"
    unfolding env_def J_def jr_def by (simp only: run_env.simps) (rule java_one_example)
  have h4: "extract_results (rust_stdout env) = Inr []"
    by (simp add: env_def extract_results_empty)
  have h1: "compile_java_ok env" and h2: "compile_rust_ok env"
    by (simp_all add: env_def)
  have h5: "length [jr] \<noteq> length ([] :: scenario_result list)" by simp
  from differing_lengths_skip_the_comparison[OF h1 h2 h3 h4 h5]
  have c: "compare_results J [] = ([ComparingHeader, AccuracyHeader], Inr ([], []))"
    and m: "fst (main env) =
     [Title,
      StatsHeader ''Java'', SuccessfulRuns 1, AverageTime 2, MedianTime 2, MinTime 2, MaxTime 2,
      StatsHeader ''Rust'', SuccessfulRuns 1, AverageTime 1, MedianTime 1, MinTime 1, MaxTime 1,
      ComparingHeader, AccuracyHeader, FinalReportHeader,
      PerformanceHeader, JavaAverage 2 2, RustAverage 1 1, RustWarmAverage 1, RustFaster 2,
      Notes]"
    by (simp_all add: env_def statistics_of_one_sample performance_of_two_samples)
  from h3 have e: "extract_results J = Inr [jr]" by (simp add: env_def)
  from e c m extract_results_empty show ?thesis
    unfolding env_def J_def jr_def by blast
qed

text \<open>
  Claim C5 as stated fails: with one record on one side and none on the other, the
  comparison prints and returns exactly what it does when both sides are empty, and the
  whole run prints no line about the mismatch.
\<close>

theorem mismatch_is_not_reported:
  "compare_results (''--- Level 1: Basic Text ---'' @ [CHR 0x0A] @ ''Example 1:'' @ [CHR 0x0A] @
       ''F-Measure: 0.6000, Precision: 1.0000, Recall: 0.4000'') [] =
     ([ComparingHeader, AccuracyHeader], Inr ([], [])) \<and>
   compare_results [] [] = ([ComparingHeader, AccuracyHeader], Inr ([], [])) \<and>
   main \<lparr>compile_java_ok = True, compile_rust_ok = True, java_times = [], rust_times = [],
         java_stdout = ''--- Level 1: Basic Text ---'' @ [CHR 0x0A] @ ''Example 1:'' @
           [CHR 0x0A] @ ''F-Measure: 0.6000, Precision: 1.0000, Recall: 0.4000'',
         rust_stdout = []\<rparr> =
     ([Title, NoValidTimes ''Java'', NoValidTimes ''Rust'', ComparingHeader, AccuracyHeader,
       FinalReportHeader, Notes], Inr ())"
proof -
  define J where "J = ''--- Level 1: Basic Text ---'' @ [CHR 0x0A] @ ''Example 1:'' @
           [CHR 0x0A] @ ''F-Measure: 0.6000, Precision: 1.0000, Recall: 0.4000''"
  have c: "compare_results J [] = ([ComparingHeader, AccuracyHeader], Inr ([], []))"
    unfolding compare_results_def J_def java_one_example extract_results_empty
    by (simp add: io_defs)
  have d: "compare_results [] [] = ([ComparingHeader, AccuracyHeader], Inr ([], []))"
    unfolding compare_results_def extract_results_empty
    by (simp add: io_defs)
  have m: "main \<lparr>compile_java_ok = True, compile_rust_ok = True, java_times = [],
         rust_times = [], java_stdout = J, rust_stdout = []\<rparr> =
     ([Title, NoValidTimes ''Java'', NoValidTimes ''Rust'', ComparingHeader, AccuracyHeader,
       FinalReportHeader, Notes], Inr ())"
    unfolding main_def
    by (simp add: print_statistics_def performance_summary_def scenario_summary_def c io_defs)
  from c d m show ?thesis unfolding J_def by blast
qed

end
